theory Spec2Isabelle
  imports Complex_Main "HOL-Library.AList"
begin

section \<open>Shared data\<close>

text \<open>
  The three crawler modules share one shape: a crawler fetching pages over the network and
  counting fetch errors, and a manager that stores the parsed items in a staging table
  \<open>*_temp\<close>, compares staging with the persistent table and, on request, merges staging into
  the persistent table and appends a log row. Python's unbounded integers are \<open>int\<close>, the
  \<open>REAL\<close> timestamps are \<open>real\<close> (only their order and one subtraction are used), and a column
  that the code leaves \<open>NULL\<close> for a while (\<open>record_time\<close>, \<open>update_time\<close> between the insert
  and the stamping of \<open>_to_table\<close>) is an \<open>option\<close>.
\<close>

datatype exn =
  ValueError | HTTPError | Timeout | ConnectionError | StopIteration | TypeError | KeyError
  | DecodeError | DatabaseError

text \<open>What one network request does: it returns a body, or \<open>requests\<close> raises.\<close>

datatype 'a response = Response 'a | Raises exn

text \<open>The run metadata, the dict \<open>self.info\<close>.\<close>

record info =
  info_site :: string
  info_time :: real
  info_last :: real
  info_error :: int
  info_page :: int
  info_count :: int
  info_new :: int
  info_discount :: int
  info_sold :: int
  info_bid :: int

text \<open>One row of table \<open>log\<close>: site, time, error, page, count, new, discount, sold.\<close>

record log_row =
  log_site :: string
  log_time :: real
  log_error :: int
  log_page :: int
  log_count :: int
  log_new :: int
  log_discount :: int
  log_sold :: int

text \<open>
  SQL comparison of a nullable column with a bound parameter: a comparison with \<open>NULL\<close> is
  not true, so the row is not selected.
\<close>

definition sql_lt :: "real option \<Rightarrow> real \<Rightarrow> bool" where
  "sql_lt c x = (case c of None \<Rightarrow> False | Some v \<Rightarrow> v < x)"

definition sql_ge :: "real option \<Rightarrow> real \<Rightarrow> bool" where
  "sql_ge c x = (case c of None \<Rightarrow> False | Some v \<Rightarrow> v \<ge> x)"

text \<open>
  What a column of \<open>INTEGER\<close> affinity holds after a text was bound to it: a number,
  when SQLite could read the text as a numeric literal, and else the text itself. In the
  order of SQLite every number is less than every text, and two texts are compared byte by
  byte.
\<close>

datatype sqlval = SqlNum real | SqlText string

fun text_less :: "string \<Rightarrow> string \<Rightarrow> bool" where
  "text_less [] [] = False"
| "text_less [] (y # ys) = True"
| "text_less (x # xs) [] = False"
| "text_less (x # xs) (y # ys) =
     ((of_char x :: nat) < of_char y \<or> ((of_char x :: nat) = of_char y \<and> text_less xs ys))"

fun sql_gt :: "sqlval \<Rightarrow> sqlval \<Rightarrow> bool" where
  "sql_gt (SqlNum x) (SqlNum y) = (x > y)"
| "sql_gt (SqlText s) (SqlNum y) = True"
| "sql_gt (SqlNum x) (SqlText t) = False"
| "sql_gt (SqlText s) (SqlText t) = text_less t s"

text \<open>
  A connection of \<open>sqlite3\<close>: the state the last commit left, and the state that the
  statements executed since then see. \<open>rollback\<close> drops what was not committed.
\<close>

record 'd connection =
  committed :: 'd
  current :: 'd

definition commit :: "'d connection \<Rightarrow> 'd connection" where
  "commit c = c\<lparr>committed := current c\<rparr>"

definition rollback :: "'d connection \<Rightarrow> 'd connection" where
  "rollback c = c\<lparr>current := committed c\<rparr>"

section \<open>Rows and items of the three sites\<close>

text \<open>
  \<open>LashinbangManager.Item\<close> and a row of \<open>lashinbang\<close> / \<open>lashinbang_temp\<close>. The
  autoincremented \<open>id\<close> is never read; it is the position of the row in the list.
  The price is the number that the JSON answer gives.
\<close>

record l_item =
  li_item_id :: int
  li_title :: string
  li_item_url :: string
  li_image_url :: string
  li_price :: int

record l_row =
  l_item_id :: int
  l_title :: string
  l_item_url :: string
  l_image_url :: string
  l_price :: int
  l_record_time :: "real option"
  l_update_time :: "real option"

text \<open>
  \<open>MercariManager.Item\<close> and a row of \<open>mercari\<close> / \<open>mercari_temp\<close>. The price is
  the number that the JSON answer gives.
\<close>

record m_item =
  mi_item_id :: string
  mi_seller_id :: string
  mi_title :: string
  mi_item_url :: string
  mi_image_url :: string
  mi_price :: int
  mi_onsale :: int

record m_row =
  m_item_id :: string
  m_seller_id :: string
  m_title :: string
  m_item_url :: string
  m_image_url :: string
  m_price :: int
  m_onsale :: int
  m_record_time :: "real option"
  m_update_time :: "real option"

text \<open>
  \<open>YahooManager.Item\<close> and a row of \<open>yahoo\<close> / \<open>yahoo_temp\<close>. \<open>get_item\<close> puts
  the two prices into the item as it reads them, as the attribute strings of the page
  (\<open>end\<close> is converted with \<open>float\<close>, the bid count with \<open>int\<close>); the row holds what
  the \<open>INTEGER\<close> column makes of them.
\<close>

record y_item =
  yi_item_id :: string
  yi_seller_id :: string
  yi_title :: string
  yi_item_url :: string
  yi_image_url :: string
  yi_bid_price :: string
  yi_full_price :: string
  yi_end :: real
  yi_bid_num :: int

record y_row =
  y_item_id :: string
  y_seller_id :: string
  y_title :: string
  y_item_url :: string
  y_image_url :: string
  y_bid_price :: sqlval
  y_full_price :: sqlval
  y_end :: real
  y_bid_num :: int
  y_record_time :: "real option"
  y_update_time :: "real option"

text \<open>The database file: the tables in the order of their rowids.\<close>

record db =
  lashinbang :: "l_row list"
  lashinbang_temp :: "l_row list"
  mercari :: "m_row list"
  mercari_temp :: "m_row list"
  yahoo :: "y_row list"
  yahoo_temp :: "y_row list"
  log :: "log_row list"

section \<open>LashinbangManager\<close>

text \<open>The columns \<open>item_id, title, item_url, image_url, price\<close> of a selected row.\<close>

definition l_select :: "l_row \<Rightarrow> int \<times> string \<times> string \<times> string \<times> int" where
  "l_select r = (l_item_id r, l_title r, l_item_url r, l_image_url r, l_price r)"

text \<open>
  \<open>LashinbangManager.compare\<close>. The three \<open>SELECT\<close>s are list comprehensions over the
  tables; the inner join pairs every staged row with the persistent rows of the same
  \<open>item_id\<close>.
\<close>

definition lashinbang_new :: "db \<Rightarrow> real \<Rightarrow> l_row list" where
  "lashinbang_new d lst =
     filter (\<lambda>t. l_item_id t \<notin> set (map l_item_id (lashinbang d))
                \<or> l_item_id t \<in> set (map l_item_id
                     (filter (\<lambda>p. sql_lt (l_update_time p) lst) (lashinbang d))))
       (lashinbang_temp d)"

definition lashinbang_discount ::
  "db \<Rightarrow> (int \<times> string \<times> string \<times> string \<times> int \<times> int) list" where
  "lashinbang_discount d =
     concat (map (\<lambda>t. map (\<lambda>l. (l_item_id l, l_title l, l_item_url l, l_image_url l,
                                  l_price l, l_price t))
                        (filter (\<lambda>l. l_item_id t = l_item_id l \<and> l_price l > l_price t)
                           (lashinbang d)))
               (lashinbang_temp d))"

definition lashinbang_sold :: "db \<Rightarrow> real \<Rightarrow> l_row list" where
  "lashinbang_sold d lst =
     filter (\<lambda>p. l_item_id p \<notin> set (map l_item_id (lashinbang_temp d))
                \<and> sql_ge (l_update_time p) lst)
       (lashinbang d)"

definition lashinbang_compare ::
  "db \<Rightarrow> info \<Rightarrow>
   ((int \<times> string \<times> string \<times> string \<times> int) list
    \<times> (int \<times> string \<times> string \<times> string \<times> int \<times> int) list
    \<times> (int \<times> string \<times> string \<times> string \<times> int) list) \<times> info" where
  "lashinbang_compare d nfo =
     (if info_last nfo = 0 then
        (([], [], []), nfo\<lparr>info_new := 0, info_discount := 0, info_sold := 0\<rparr>)
      else
        let new = map l_select (lashinbang_new d (info_last nfo));
            nfo1 = nfo\<lparr>info_new := int (length new)\<rparr>;
            discount = lashinbang_discount d;
            nfo2 = nfo1\<lparr>info_discount := int (length discount)\<rparr>
        in if info_error nfo2 = 0 then
             let sold = map l_select (lashinbang_sold d (info_last nfo2))
             in ((new, discount, sold), nfo2\<lparr>info_sold := int (length sold)\<rparr>)
           else ((new, discount, []), nfo2\<lparr>info_sold := 0\<rparr>))"

text \<open>
  \<open>LashinbangManager._to_table\<close>. \<open>executemany\<close> binds and inserts the items one by one
  inside one transaction; \<open>INSERT OR IGNORE\<close> skips an item whose \<open>item_id\<close> is already in
  the table. Whether \<open>sqlite3\<close> can bind an item is the parameter \<open>ok\<close>: at the first item
  it cannot bind, \<open>executemany\<close> raises, with the earlier items already written.
\<close>

definition l_insert_or_ignore :: "l_row list \<Rightarrow> l_item \<Rightarrow> l_row list" where
  "l_insert_or_ignore t i =
     (if li_item_id i \<in> set (map l_item_id t) then t
      else t @ [\<lparr>l_item_id = li_item_id i, l_title = li_title i, l_item_url = li_item_url i,
                 l_image_url = li_image_url i, l_price = li_price i,
                 l_record_time = None, l_update_time = None\<rparr>])"

fun l_executemany :: "(l_item \<Rightarrow> bool) \<Rightarrow> l_row list \<Rightarrow> l_item list \<Rightarrow> exn option \<times> l_row list" where
  "l_executemany ok t [] = (None, t)"
| "l_executemany ok t (i # rest) =
     (if ok i then l_executemany ok (l_insert_or_ignore t i) rest else (Some DatabaseError, t))"

definition l_stamp :: "real \<Rightarrow> l_row \<Rightarrow> l_row" where
  "l_stamp tm r = r\<lparr>l_record_time := Some tm, l_update_time := Some tm\<rparr>"

definition lashinbang_to_table ::
  "(l_item \<Rightarrow> bool) \<Rightarrow> db connection \<Rightarrow> info \<Rightarrow> l_item list \<Rightarrow> (exn + unit) \<times> db connection" where
  "lashinbang_to_table ok con nfo data =
     (case l_executemany ok (lashinbang_temp (current con)) data of
        (Some e, t) \<Rightarrow>
          (Inl e, rollback (con\<lparr>current := (current con)\<lparr>lashinbang_temp := t\<rparr>\<rparr>))
      | (None, t) \<Rightarrow>
          (Inr (), commit (con\<lparr>current := (current con)
                     \<lparr>lashinbang_temp := map (l_stamp (info_time nfo)) t\<rparr>\<rparr>)))"

text \<open>
  \<open>LashinbangManager.update\<close>: the \<open>UPDATE\<close> runs once per row of \<open>query\<close>, the
  \<open>INSERT ... SELECT\<close> appends the staged rows whose \<open>item_id\<close> the table does not hold, one
  row is appended to \<open>log\<close>, and the transaction is committed. (The method \<open>update\<close> of
  each manager is \<open>update_lashinbang\<close>, \<open>update_mercari\<close>, \<open>update_yahoo\<close> here.)
\<close>

fun l_executemany_update :: "l_row list \<Rightarrow> (int \<times> real option \<times> int) list \<Rightarrow> l_row list" where
  "l_executemany_update tab [] = tab"
| "l_executemany_update tab ((p, u, i) # q) =
     l_executemany_update
       (map (\<lambda>r. if l_item_id r = i then r\<lparr>l_price := p, l_update_time := u\<rparr> else r) tab) q"

definition log_entry :: "info \<Rightarrow> int \<Rightarrow> log_row" where
  "log_entry nfo n =
     \<lparr>log_site = info_site nfo, log_time = info_time nfo, log_error = info_error nfo,
      log_page = info_page nfo, log_count = info_count nfo, log_new = info_new nfo,
      log_discount = info_discount nfo, log_sold = n\<rparr>"

definition lashinbang_merge :: "l_row list \<Rightarrow> l_row list \<Rightarrow> l_row list" where
  "lashinbang_merge tab temp =
     (let query = map (\<lambda>t. (l_price t, l_update_time t, l_item_id t))
                    (filter (\<lambda>t. l_item_id t \<in> set (map l_item_id tab)) temp);
          upd = l_executemany_update tab query
      in upd @ filter (\<lambda>t. l_item_id t \<notin> set (map l_item_id upd)) temp)"

definition update_lashinbang :: "db connection \<Rightarrow> info \<Rightarrow> db connection" where
  "update_lashinbang con nfo =
     (let d = current con
      in commit (con\<lparr>current := d\<lparr>lashinbang := lashinbang_merge (lashinbang d) (lashinbang_temp d),
                                    log := log d @ [log_entry nfo (info_sold nfo)]\<rparr>\<rparr>))"

section \<open>MercariManager\<close>

definition m_select :: "m_row \<Rightarrow> string \<times> string \<times> string \<times> string \<times> int" where
  "m_select r = (m_item_id r, m_title r, m_item_url r, m_image_url r, m_price r)"

text \<open>
  \<open>MercariManager.compare\<close>: new and sold are read from the staged \<open>onsale\<close> flag against
  the persistent one; neither the watermark nor the error count is used past the first-run
  test.
\<close>

definition mercari_new :: "db \<Rightarrow> m_row list" where
  "mercari_new d =
     filter (\<lambda>t. m_onsale t = 1
                \<and> (m_item_id t \<notin> set (map m_item_id (mercari d))
                   \<or> m_item_id t \<in> set (map m_item_id
                        (filter (\<lambda>p. m_onsale p = 0) (mercari d)))))
       (mercari_temp d)"

definition mercari_discount ::
  "db \<Rightarrow> (string \<times> string \<times> string \<times> string \<times> int \<times> int) list" where
  "mercari_discount d =
     concat (map (\<lambda>t. map (\<lambda>l. (m_item_id t, m_title t, m_item_url t, m_image_url t,
                                  m_price l, m_price t))
                        (filter (\<lambda>l. m_item_id t = m_item_id l
                                     \<and> m_price l > m_price t \<and> m_onsale t = 1)
                           (mercari d)))
               (mercari_temp d))"

definition mercari_sold :: "db \<Rightarrow> m_row list" where
  "mercari_sold d =
     filter (\<lambda>t. m_onsale t = 0
                \<and> (m_item_id t \<notin> set (map m_item_id (mercari d))
                   \<or> m_item_id t \<in> set (map m_item_id
                        (filter (\<lambda>p. m_onsale p = 1) (mercari d)))))
       (mercari_temp d)"

definition mercari_compare ::
  "db \<Rightarrow> info \<Rightarrow>
   ((string \<times> string \<times> string \<times> string \<times> int) list
    \<times> (string \<times> string \<times> string \<times> string \<times> int \<times> int) list
    \<times> (string \<times> string \<times> string \<times> string \<times> int) list) \<times> info" where
  "mercari_compare d nfo =
     (if info_last nfo = 0 then
        (([], [], []), nfo\<lparr>info_new := 0, info_discount := 0, info_sold := 0\<rparr>)
      else
        let new = map m_select (mercari_new d);
            nfo1 = nfo\<lparr>info_new := int (length new)\<rparr>;
            discount = mercari_discount d;
            nfo2 = nfo1\<lparr>info_discount := int (length discount)\<rparr>;
            sold = map m_select (mercari_sold d)
        in ((new, discount, sold), nfo2\<lparr>info_sold := int (length sold)\<rparr>))"

definition m_insert_or_ignore :: "m_row list \<Rightarrow> m_item \<Rightarrow> m_row list" where
  "m_insert_or_ignore t i =
     (if mi_item_id i \<in> set (map m_item_id t) then t
      else t @ [\<lparr>m_item_id = mi_item_id i, m_seller_id = mi_seller_id i, m_title = mi_title i,
                 m_item_url = mi_item_url i, m_image_url = mi_image_url i,
                 m_price = mi_price i, m_onsale = mi_onsale i,
                 m_record_time = None, m_update_time = None\<rparr>])"

fun m_executemany :: "(m_item \<Rightarrow> bool) \<Rightarrow> m_row list \<Rightarrow> m_item list \<Rightarrow> exn option \<times> m_row list" where
  "m_executemany ok t [] = (None, t)"
| "m_executemany ok t (i # rest) =
     (if ok i then m_executemany ok (m_insert_or_ignore t i) rest else (Some DatabaseError, t))"

definition m_stamp :: "real \<Rightarrow> m_row \<Rightarrow> m_row" where
  "m_stamp tm r = r\<lparr>m_record_time := Some tm, m_update_time := Some tm\<rparr>"

definition mercari_to_table ::
  "(m_item \<Rightarrow> bool) \<Rightarrow> db connection \<Rightarrow> info \<Rightarrow> m_item list \<Rightarrow> (exn + unit) \<times> db connection" where
  "mercari_to_table ok con nfo data =
     (case m_executemany ok (mercari_temp (current con)) data of
        (Some e, t) \<Rightarrow>
          (Inl e, rollback (con\<lparr>current := (current con)\<lparr>mercari_temp := t\<rparr>\<rparr>))
      | (None, t) \<Rightarrow>
          (Inr (), commit (con\<lparr>current := (current con)
                     \<lparr>mercari_temp := map (m_stamp (info_time nfo)) t\<rparr>\<rparr>)))"

fun m_executemany_update ::
  "m_row list \<Rightarrow> (int \<times> int \<times> real option \<times> string) list \<Rightarrow> m_row list" where
  "m_executemany_update tab [] = tab"
| "m_executemany_update tab ((p, s, u, i) # q) =
     m_executemany_update
       (map (\<lambda>r. if m_item_id r = i then r\<lparr>m_price := p, m_onsale := s, m_update_time := u\<rparr>
                  else r) tab) q"

definition mercari_merge :: "m_row list \<Rightarrow> m_row list \<Rightarrow> m_row list" where
  "mercari_merge tab temp =
     (let query = map (\<lambda>t. (m_price t, m_onsale t, m_update_time t, m_item_id t))
                    (filter (\<lambda>t. m_item_id t \<in> set (map m_item_id tab)) temp);
          upd = m_executemany_update tab query
      in upd @ filter (\<lambda>t. m_item_id t \<notin> set (map m_item_id upd)) temp)"

definition update_mercari :: "db connection \<Rightarrow> info \<Rightarrow> db connection" where
  "update_mercari con nfo =
     (let d = current con
      in commit (con\<lparr>current := d\<lparr>mercari := mercari_merge (mercari d) (mercari_temp d),
                                    log := log d @ [log_entry nfo (info_sold nfo)]\<rparr>\<rparr>))"

section \<open>YahooManager\<close>

text \<open>
  \<open>YahooManager.compare\<close>: a persistent row counts as expired when its \<open>update_time\<close> is more
  than a day (\<open>60 * 60 * 24\<close> seconds) older than the watermark; the third set holds the rows
  whose bid count grew.
\<close>

definition y_select ::
  "y_row \<Rightarrow> string \<times> string \<times> string \<times> string \<times> sqlval \<times> sqlval \<times> real \<times> int" where
  "y_select r = (y_item_id r, y_title r, y_item_url r, y_image_url r,
                 y_bid_price r, y_full_price r, y_end r, y_bid_num r)"

definition yahoo_new :: "db \<Rightarrow> real \<Rightarrow> y_row list" where
  "yahoo_new d expire =
     filter (\<lambda>t. y_item_id t \<notin> set (map y_item_id (yahoo d))
                \<or> y_item_id t \<in> set (map y_item_id
                     (filter (\<lambda>p. sql_lt (y_update_time p) expire) (yahoo d))))
       (yahoo_temp d)"

definition yahoo_discount ::
  "db \<Rightarrow> (string \<times> string \<times> string \<times> string
         \<times> sqlval \<times> sqlval \<times> sqlval \<times> sqlval \<times> real \<times> int) list" where
  "yahoo_discount d =
     concat (map (\<lambda>t. map (\<lambda>l. (y_item_id t, y_title t, y_item_url t, y_image_url t,
                                  y_bid_price l, y_full_price l, y_bid_price t, y_full_price t,
                                  y_end t, y_bid_num t))
                        (filter (\<lambda>l. y_item_id t = y_item_id l
                                     \<and> (sql_gt (y_bid_price l) (y_bid_price t)
                                        \<or> sql_gt (y_full_price l) (y_full_price t))
                                     \<and> y_bid_num l = 0)
                           (yahoo d)))
               (yahoo_temp d))"

definition yahoo_bid ::
  "db \<Rightarrow> (string \<times> string \<times> string \<times> string
         \<times> sqlval \<times> sqlval \<times> real \<times> int \<times> int) list" where
  "yahoo_bid d =
     concat (map (\<lambda>t. map (\<lambda>l. (y_item_id t, y_title t, y_item_url t, y_image_url t,
                                  y_bid_price t, y_full_price t, y_end t,
                                  y_bid_num l, y_bid_num t))
                        (filter (\<lambda>l. y_item_id t = y_item_id l \<and> y_bid_num l < y_bid_num t)
                           (yahoo d)))
               (yahoo_temp d))"

definition yahoo_compare ::
  "db \<Rightarrow> info \<Rightarrow>
   ((string \<times> string \<times> string \<times> string \<times> sqlval \<times> sqlval \<times> real \<times> int) list
    \<times> (string \<times> string \<times> string \<times> string
       \<times> sqlval \<times> sqlval \<times> sqlval \<times> sqlval \<times> real \<times> int) list
    \<times> (string \<times> string \<times> string \<times> string \<times> sqlval \<times> sqlval \<times> real \<times> int \<times> int) list)
   \<times> info" where
  "yahoo_compare d nfo =
     (if info_last nfo = 0 then
        (([], [], []), nfo\<lparr>info_new := 0, info_discount := 0, info_bid := 0\<rparr>)
      else
        let expire = info_last nfo - (60 * 60 * 24);
            new = map y_select (yahoo_new d expire);
            nfo1 = nfo\<lparr>info_new := int (length new)\<rparr>;
            discount = yahoo_discount d;
            nfo2 = nfo1\<lparr>info_discount := int (length discount)\<rparr>;
            bid = yahoo_bid d
        in ((new, discount, bid), nfo2\<lparr>info_bid := int (length bid)\<rparr>))"

text \<open>
  \<open>YahooManager._to_table\<close>. The parameter \<open>aff\<close> is what SQLite stores when a text is
  bound to a column of \<open>INTEGER\<close> affinity: the number, for a well-formed integer or real
  literal, and the text itself otherwise.
\<close>

definition y_insert_or_ignore :: "(string \<Rightarrow> sqlval) \<Rightarrow> y_row list \<Rightarrow> y_item \<Rightarrow> y_row list" where
  "y_insert_or_ignore aff t i =
     (if yi_item_id i \<in> set (map y_item_id t) then t
      else t @ [\<lparr>y_item_id = yi_item_id i, y_seller_id = yi_seller_id i, y_title = yi_title i,
                 y_item_url = yi_item_url i, y_image_url = yi_image_url i,
                 y_bid_price = aff (yi_bid_price i), y_full_price = aff (yi_full_price i),
                 y_end = yi_end i, y_bid_num = yi_bid_num i,
                 y_record_time = None, y_update_time = None\<rparr>])"

fun y_executemany ::
  "(y_item \<Rightarrow> bool) \<Rightarrow> (string \<Rightarrow> sqlval) \<Rightarrow> y_row list \<Rightarrow> y_item list
   \<Rightarrow> exn option \<times> y_row list" where
  "y_executemany ok aff t [] = (None, t)"
| "y_executemany ok aff t (i # rest) =
     (if ok i then y_executemany ok aff (y_insert_or_ignore aff t i) rest
      else (Some DatabaseError, t))"

definition y_stamp :: "real \<Rightarrow> y_row \<Rightarrow> y_row" where
  "y_stamp tm r = r\<lparr>y_record_time := Some tm, y_update_time := Some tm\<rparr>"

definition yahoo_to_table ::
  "(y_item \<Rightarrow> bool) \<Rightarrow> (string \<Rightarrow> sqlval) \<Rightarrow> db connection \<Rightarrow> info \<Rightarrow> y_item list
   \<Rightarrow> (exn + unit) \<times> db connection" where
  "yahoo_to_table ok aff con nfo data =
     (case y_executemany ok aff (yahoo_temp (current con)) data of
        (Some e, t) \<Rightarrow>
          (Inl e, rollback (con\<lparr>current := (current con)\<lparr>yahoo_temp := t\<rparr>\<rparr>))
      | (None, t) \<Rightarrow>
          (Inr (), commit (con\<lparr>current := (current con)
                     \<lparr>yahoo_temp := map (y_stamp (info_time nfo)) t\<rparr>\<rparr>)))"

fun y_executemany_update ::
  "y_row list \<Rightarrow> (sqlval \<times> sqlval \<times> real \<times> int \<times> real option \<times> string) list
   \<Rightarrow> y_row list" where
  "y_executemany_update tab [] = tab"
| "y_executemany_update tab ((b, f, e, n, u, i) # q) =
     y_executemany_update
       (map (\<lambda>r. if y_item_id r = i
                  then r\<lparr>y_bid_price := b, y_full_price := f, y_end := e, y_bid_num := n,
                         y_update_time := u\<rparr>
                  else r) tab) q"

definition yahoo_merge :: "y_row list \<Rightarrow> y_row list \<Rightarrow> y_row list" where
  "yahoo_merge tab temp =
     (let query = map (\<lambda>t. (y_bid_price t, y_full_price t, y_end t, y_bid_num t,
                              y_update_time t, y_item_id t))
                    (filter (\<lambda>t. y_item_id t \<in> set (map y_item_id tab)) temp);
          upd = y_executemany_update tab query
      in upd @ filter (\<lambda>t. y_item_id t \<notin> set (map y_item_id upd)) temp)"

text \<open>The log row of the auction site records the bid count in column \<open>sold\<close>.\<close>

definition update_yahoo :: "db connection \<Rightarrow> info \<Rightarrow> db connection" where
  "update_yahoo con nfo =
     (let d = current con
      in commit (con\<lparr>current := d\<lparr>yahoo := yahoo_merge (yahoo d) (yahoo_temp d),
                                    log := log d @ [log_entry nfo (info_bid nfo)]\<rparr>\<rparr>))"

section \<open>The crawlers\<close>

text \<open>
  The state of a crawler: the shared error counter and, to tell what happens before a
  request from what happens after it, the requests sent so far. The network is a parameter
  \<open>net\<close> that gives, for a request, the body of the answer or the exception that
  \<open>requests\<close> raises (\<open>HTTPError\<close> from \<open>raise_for_status\<close>, \<open>Timeout\<close> when the
  \<open>timeout\<close> passes, ...). The tasks of the thread pool are run one after the other, in
  the order of the keywords.
\<close>

datatype request = AgeCheck | Search string int

record crawler =
  error_count :: int
  requests :: "request list"

definition MAX_PAGE_LIMIT :: int where
  "MAX_PAGE_LIMIT = 12"

definition pass_age_check :: "(request \<Rightarrow> string response) \<Rightarrow> crawler \<Rightarrow> (exn + unit) \<times> crawler" where
  "pass_age_check net c =
     (let c1 = c\<lparr>requests := requests c @ [AgeCheck]\<rparr>
      in case net AgeCheck of Raises e \<Rightarrow> (Inl e, c1) | Response _ \<Rightarrow> (Inr (), c1))"

text \<open>
  \<open>LashinbangCrawler.get_one\<close>. The \<open>except\<close> clause names \<open>requests.HTTPError\<close> only:
  any other exception leaves the \<open>try\<close> statement as it is. The result is \<open>r.text[9: -2]\<close>.
\<close>

definition lashinbang_get_one ::
  "(request \<Rightarrow> string response) \<Rightarrow> crawler \<Rightarrow> string \<Rightarrow> int \<Rightarrow> (exn + string) \<times> crawler" where
  "lashinbang_get_one net c keyword page =
     (if page > MAX_PAGE_LIMIT then
        (Inl ValueError, c\<lparr>error_count := error_count c + 1\<rparr>)
      else
        let c1 = c\<lparr>requests := requests c @ [Search keyword page]\<rparr>
        in case net (Search keyword page) of
             Raises e \<Rightarrow>
               (if e = HTTPError then (Inl e, c1\<lparr>error_count := error_count c1 + 1\<rparr>)
                else (Inl e, c1))
           | Response text \<Rightarrow> (Inr (drop 9 (take (length text - 2) text)), c1))"

text \<open>
  \<open>LashinbangCrawler.get_many\<close>. The result dict maps a keyword to its page count and its
  pages, \<open>None\<close> for a page whose task raised. \<open>_get_page_count\<close> (a regular expression
  over the text) is the parameter \<open>pc\<close>; it is \<open>None\<close> where \<open>next\<close> finds no match and
  raises \<open>StopIteration\<close>.
\<close>

type_synonym l_raw = "(string \<times> int \<times> (int \<times> string option) list) list"

fun l_first_pages ::
  "(request \<Rightarrow> string response) \<Rightarrow> crawler \<Rightarrow> string list
   \<Rightarrow> (string \<times> (exn + string)) list \<times> crawler" where
  "l_first_pages net c [] = ([], c)"
| "l_first_pages net c (kw # kws) =
     (case lashinbang_get_one net c kw 1 of
        (r, c1) \<Rightarrow> (case l_first_pages net c1 kws of (rs, c2) \<Rightarrow> ((kw, r) # rs, c2)))"

fun l_collect_first ::
  "(string \<Rightarrow> int option) \<Rightarrow> l_raw \<Rightarrow> (string \<times> (exn + string)) list \<Rightarrow> exn + l_raw" where
  "l_collect_first pc result [] = Inr result"
| "l_collect_first pc result ((kw, Inl e) # rest) =
     l_collect_first pc (AList.update kw (1, [(1, None)]) result) rest"
| "l_collect_first pc result ((kw, Inr text) # rest) =
     (case pc text of
        None \<Rightarrow> Inl StopIteration
      | Some n \<Rightarrow>
          l_collect_first pc
            (AList.update kw (min n MAX_PAGE_LIMIT, [(1, Some text)]) result) rest)"

definition l_pages_of :: "l_raw \<Rightarrow> string \<Rightarrow> int" where
  "l_pages_of result kw = (case map_of result kw of None \<Rightarrow> 0 | Some (pages, _) \<Rightarrow> pages)"

fun l_more_pages ::
  "(request \<Rightarrow> string response) \<Rightarrow> crawler \<Rightarrow> l_raw \<Rightarrow> (string \<times> int) list
   \<Rightarrow> l_raw \<times> crawler" where
  "l_more_pages net c result [] = (result, c)"
| "l_more_pages net c result ((kw, page) # rest) =
     (case lashinbang_get_one net c kw page of
        (r, c1) \<Rightarrow>
          l_more_pages net c1
            (AList.map_entry kw
               (\<lambda>(pages, ps). (pages, AList.update page
                                          (case r of Inl _ \<Rightarrow> None | Inr t \<Rightarrow> Some t) ps))
               result)
            rest)"

definition lashinbang_get_many ::
  "(request \<Rightarrow> string response) \<Rightarrow> (string \<Rightarrow> int option) \<Rightarrow> crawler \<Rightarrow> string list
   \<Rightarrow> (exn + l_raw) \<times> crawler" where
  "lashinbang_get_many net pc c keywords =
     (case pass_age_check net c of
        (Inl e, c1) \<Rightarrow> (Inl e, c1)
      | (Inr _, c1) \<Rightarrow>
          (case l_first_pages net c1 keywords of
             (firsts, c2) \<Rightarrow>
               (case l_collect_first pc [] firsts of
                  Inl e \<Rightarrow> (Inl e, c2)
                | Inr result \<Rightarrow>
                    (case l_more_pages net c2 result
                            (concat (map (\<lambda>kw. map (\<lambda>i. (kw, i + 2))
                                                 [0..l_pages_of result kw - 2]) keywords)) of
                       (result2, c3) \<Rightarrow> (Inr result2, c3)))))"

text \<open>
  \<open>YahooCrawler.get_one\<close> and \<open>get_many\<close>: one page per keyword, the empty string for a
  keyword whose task raised.
\<close>

definition yahoo_get_one ::
  "(request \<Rightarrow> string response) \<Rightarrow> crawler \<Rightarrow> string \<Rightarrow> (exn + string) \<times> crawler" where
  "yahoo_get_one net c keyword =
     (let c1 = c\<lparr>requests := requests c @ [Search keyword 1]\<rparr>
      in case net (Search keyword 1) of
           Raises e \<Rightarrow>
             (if e = HTTPError then (Inl e, c1\<lparr>error_count := error_count c1 + 1\<rparr>)
              else (Inl e, c1))
         | Response text \<Rightarrow> (Inr text, c1))"

fun yahoo_get_many ::
  "(request \<Rightarrow> string response) \<Rightarrow> crawler \<Rightarrow> (string \<times> string) list \<Rightarrow> string list
   \<Rightarrow> (string \<times> string) list \<times> crawler" where
  "yahoo_get_many net c result [] = (result, c)"
| "yahoo_get_many net c result (kw # kws) =
     (case yahoo_get_one net c kw of
        (r, c1) \<Rightarrow>
          yahoo_get_many net c1
            (AList.update kw (case r of Inl _ \<Rightarrow> [] | Inr text \<Rightarrow> text) result) kws)"

text \<open>
  \<open>MercariCrawler.get_one\<close> and \<open>get_many\<close>. The decoded answer \<open>r.json()\<close> is \<open>None\<close> for
  a dict without the key \<open>data\<close> (so for the \<open>{}\<close> that stands for a failed task), and else
  the items its \<open>data\<close> holds, or the exception that building them raises.
\<close>

type_synonym m_json = "(exn + m_item list) option"

definition mercari_get_one ::
  "(request \<Rightarrow> m_json response) \<Rightarrow> crawler \<Rightarrow> string \<Rightarrow> (exn + m_json) \<times> crawler" where
  "mercari_get_one net c keyword =
     (let c1 = c\<lparr>requests := requests c @ [Search keyword 0]\<rparr>
      in case net (Search keyword 0) of
           Raises e \<Rightarrow>
             (if e = HTTPError then (Inl e, c1\<lparr>error_count := error_count c1 + 1\<rparr>)
              else (Inl e, c1))
         | Response js \<Rightarrow> (Inr js, c1))"

fun mercari_get_many ::
  "(request \<Rightarrow> m_json response) \<Rightarrow> crawler \<Rightarrow> (string \<times> m_json) list \<Rightarrow> string list
   \<Rightarrow> (string \<times> m_json) list \<times> crawler" where
  "mercari_get_many net c result [] = (result, c)"
| "mercari_get_many net c result (kw # kws) =
     (case mercari_get_one net c kw of
        (r, c1) \<Rightarrow>
          mercari_get_many net c1
            (AList.update kw (case r of Inl _ \<Rightarrow> None | Inr js \<Rightarrow> js) result) kws)"

section \<open>One run of a site\<close>

text \<open>
  What a run takes from outside: the network, the parsers of the libraries (\<open>json\<close>, the
  regular expression, \<open>BeautifulSoup\<close>), whether \<open>sqlite3\<close> can bind an item, what
  SQLite stores for a text bound to an \<open>INTEGER\<close> column, and the clock.
\<close>

record 'js l_env =
  l_net :: "request \<Rightarrow> string response"
  l_page_count :: "string \<Rightarrow> int option"
  l_loads :: "string \<Rightarrow> exn + 'js"
  l_items :: "'js \<Rightarrow> exn + l_item list"
  l_bindable :: "l_item \<Rightarrow> bool"
  l_now :: real

record m_env =
  m_net :: "request \<Rightarrow> m_json response"
  m_bindable :: "m_item \<Rightarrow> bool"
  m_now :: real

record 'sp y_env =
  y_net :: "request \<Rightarrow> string response"
  y_soup :: "string \<Rightarrow> exn + 'sp"
  y_check_empty :: "'sp \<Rightarrow> bool"
  y_items :: "'sp \<Rightarrow> exn + y_item list"
  y_bindable :: "y_item \<Rightarrow> bool"
  y_affinity :: "string \<Rightarrow> sqlval"
  y_now :: real

text \<open>
  Modelled from the spec: \<open>CrawlerManager._get_update_time\<close> of module \<open>bot_classutil\<close>,
  which is not among the sources. The watermark \<open>last\<close> is the time of the previous
  committed run of the site, read from the log, and \<open>0\<close> before the first commit.
\<close>

definition get_update_time :: "log_row list \<Rightarrow> string \<Rightarrow> real" where
  "get_update_time lg site =
     (case filter (\<lambda>r. log_site r = site) lg of
        [] \<Rightarrow> 0
      | r # rs \<Rightarrow> log_time (last (r # rs)))"

text \<open>
  Modelled from the spec: \<open>CrawlerManager.__init__\<close> and \<open>check_exist\<close> of module
  \<open>bot_classutil\<close>, which is not among the sources. A manager starts with the run's time,
  the watermark and zero counters, on a connection whose staging table has been emptied
  (\<open>overwrite=True\<close>); its crawler starts with \<open>error_count = 0\<close>. A persistent table that
  does not exist yet is created empty, which the list \<open>[]\<close> already is.
\<close>

definition new_info :: "string \<Rightarrow> real \<Rightarrow> log_row list \<Rightarrow> info" where
  "new_info site now lg =
     \<lparr>info_site = site, info_time = now, info_last = get_update_time lg site,
      info_error = 0, info_page = 0, info_count = 0, info_new = 0, info_discount = 0,
      info_sold = 0, info_bid = 0\<rparr>"

definition new_crawler :: crawler where
  "new_crawler = \<lparr>error_count = 0, requests = []\<rparr>"

definition connect :: "db \<Rightarrow> db connection" where
  "connect d = \<lparr>committed = d, current = d\<rparr>"

definition lashinbang_init :: "real \<Rightarrow> db \<Rightarrow> db connection \<times> info \<times> crawler" where
  "lashinbang_init now d =
     (connect (d\<lparr>lashinbang_temp := []\<rparr>), new_info ''lashinbang'' now (log d), new_crawler)"

definition mercari_init :: "real \<Rightarrow> db \<Rightarrow> db connection \<times> info \<times> crawler" where
  "mercari_init now d =
     (connect (d\<lparr>mercari_temp := []\<rparr>), new_info ''mercari'' now (log d), new_crawler)"

definition yahoo_init :: "real \<Rightarrow> db \<Rightarrow> db connection \<times> info \<times> crawler" where
  "yahoo_init now d =
     (connect (d\<lparr>yahoo_temp := []\<rparr>), new_info ''yahoo'' now (log d), new_crawler)"

text \<open>
  \<open>LashinbangManager.get_item\<close>. A page is \<open>None\<close> when the dict has no such key
  (\<open>KeyError\<close>), \<open>Some None\<close> when its task raised (\<open>json.loads(None)\<close> raises
  \<open>TypeError\<close>), and else its text. \<open>TypeError\<close> skips the page, \<open>KeyError\<close> counts an
  error and skips the page, every other exception leaves \<open>get_item\<close>; building the items
  is outside the \<open>try\<close> statement.
\<close>

fun l_parse ::
  "(string \<Rightarrow> exn + 'js) \<Rightarrow> ('js \<Rightarrow> exn + l_item list) \<Rightarrow> string option option list
   \<Rightarrow> int \<Rightarrow> l_item list \<Rightarrow> exn + (int \<times> l_item list)" where
  "l_parse loads items_of [] err items = Inr (err, items)"
| "l_parse loads items_of (None # rest) err items =
     l_parse loads items_of rest (err + 1) items"
| "l_parse loads items_of (Some None # rest) err items =
     l_parse loads items_of rest err items"
| "l_parse loads items_of (Some (Some text) # rest) err items =
     (case loads text of
        Inl e \<Rightarrow>
          (if e = TypeError then l_parse loads items_of rest err items
           else if e = KeyError then l_parse loads items_of rest (err + 1) items
           else Inl e)
      | Inr js \<Rightarrow>
          (case items_of js of
             Inl e \<Rightarrow> Inl e
           | Inr found \<Rightarrow> l_parse loads items_of rest err (items @ found)))"

definition l_pages :: "l_raw \<Rightarrow> string option option list" where
  "l_pages raw =
     concat (map (\<lambda>(kw, pages, ps). map (\<lambda>p. map_of ps (p + 1)) [0..pages - 1]) raw)"

definition lashinbang_get_item ::
  "'js l_env \<Rightarrow> db connection \<Rightarrow> info \<Rightarrow> crawler \<Rightarrow> string list
   \<Rightarrow> (exn + unit) \<times> db connection \<times> info \<times> crawler" where
  "lashinbang_get_item env con nfo c keywords =
     (case lashinbang_get_many (l_net env) (l_page_count env) c keywords of
        (Inl e, c1) \<Rightarrow> (Inl e, con, nfo, c1)
      | (Inr raw, c1) \<Rightarrow>
          (let nfo1 = nfo\<lparr>info_page := sum_list (map (\<lambda>(kw, pages, ps). pages) raw),
                          info_error := error_count c1\<rparr>
           in case l_parse (l_loads env) (l_items env) (l_pages raw) (info_error nfo1) [] of
                Inl e \<Rightarrow> (Inl e, con, nfo1, c1)
              | Inr (err, items) \<Rightarrow>
                  (let nfo2 = nfo1\<lparr>info_error := err, info_count := int (length items)\<rparr>
                   in case lashinbang_to_table (l_bindable env) con nfo2 items of
                        (r, con1) \<Rightarrow> (r, con1, nfo2, c1))))"

text \<open>\<open>MercariManager.get_item\<close>: a keyword whose answer has no \<open>data\<close> counts an error.\<close>

fun m_parse :: "m_json list \<Rightarrow> int \<Rightarrow> m_item list \<Rightarrow> exn + (int \<times> m_item list)" where
  "m_parse [] err items = Inr (err, items)"
| "m_parse (None # rest) err items = m_parse rest (err + 1) items"
| "m_parse (Some (Inl e) # rest) err items = Inl e"
| "m_parse (Some (Inr found) # rest) err items = m_parse rest err (items @ found)"

definition mercari_get_item ::
  "m_env \<Rightarrow> db connection \<Rightarrow> info \<Rightarrow> crawler \<Rightarrow> string list
   \<Rightarrow> (exn + unit) \<times> db connection \<times> info \<times> crawler" where
  "mercari_get_item env con nfo c keywords =
     (case mercari_get_many (m_net env) c [] keywords of
        (raw, c1) \<Rightarrow>
          (let nfo1 = nfo\<lparr>info_page := int (length raw), info_error := error_count c1\<rparr>
           in case m_parse (map snd raw) (info_error nfo1) [] of
                Inl e \<Rightarrow> (Inl e, con, nfo1, c1)
              | Inr (err, items) \<Rightarrow>
                  (let nfo2 = nfo1\<lparr>info_error := err, info_count := int (length items)\<rparr>
                   in case mercari_to_table (m_bindable env) con nfo2 items of
                        (r, con1) \<Rightarrow> (r, con1, nfo2, c1))))"

text \<open>
  \<open>YahooManager.get_item\<close>: a text that \<open>BeautifulSoup\<close> cannot parse counts an error, an
  empty result page is skipped, and an exception while the items are read leaves
  \<open>get_item\<close>.
\<close>

fun y_parse ::
  "(string \<Rightarrow> exn + 'sp) \<Rightarrow> ('sp \<Rightarrow> bool) \<Rightarrow> ('sp \<Rightarrow> exn + y_item list) \<Rightarrow> string list
   \<Rightarrow> int \<Rightarrow> y_item list \<Rightarrow> exn + (int \<times> y_item list)" where
  "y_parse soup chk items_of [] err items = Inr (err, items)"
| "y_parse soup chk items_of (text # rest) err items =
     (case soup text of
        Inl e \<Rightarrow> y_parse soup chk items_of rest (err + 1) items
      | Inr sp \<Rightarrow>
          (if chk sp then y_parse soup chk items_of rest err items
           else case items_of sp of
                  Inl e \<Rightarrow> Inl e
                | Inr found \<Rightarrow> y_parse soup chk items_of rest err (items @ found)))"

definition yahoo_get_item ::
  "'sp y_env \<Rightarrow> db connection \<Rightarrow> info \<Rightarrow> crawler \<Rightarrow> string list
   \<Rightarrow> (exn + unit) \<times> db connection \<times> info \<times> crawler" where
  "yahoo_get_item env con nfo c keywords =
     (case yahoo_get_many (y_net env) c [] keywords of
        (raw, c1) \<Rightarrow>
          (let nfo1 = nfo\<lparr>info_page := int (length raw), info_error := error_count c1\<rparr>
           in case y_parse (y_soup env) (y_check_empty env) (y_items env) (map snd raw)
                     (info_error nfo1) [] of
                Inl e \<Rightarrow> (Inl e, con, nfo1, c1)
              | Inr (err, items) \<Rightarrow>
                  (let nfo2 = nfo1\<lparr>info_error := err, info_count := int (length items)\<rparr>
                   in case yahoo_to_table (y_bindable env) (y_affinity env) con nfo2 items of
                        (r, con1) \<Rightarrow> (r, con1, nfo2, c1))))"

text \<open>The truth value of a Python integer, as \<open>bool\<close> and \<open>or\<close> read it.\<close>

definition truthy :: "int \<Rightarrow> bool" where
  "truthy n = (n \<noteq> 0)"

text \<open>
  The three \<open>main\<close> functions: \<open>get_item\<close>, then \<open>get_message\<close>, which calls \<open>compare\<close>
  and renders its three lists (the rendering, through \<open>_split\<close> of \<open>bot_classutil\<close>, is
  left out: the message here is the three lists), then \<open>update\<close> when asked. An exception
  of \<open>get_item\<close> leaves \<open>main\<close>. The result holds the database file as the connection
  leaves it: its committed state. The parameter \<open>update\<close> has the default \<open>False\<close> in the
  source; a caller that omits it passes \<open>False\<close> here.
\<close>

definition lashinbang_main ::
  "'js l_env \<Rightarrow> string list \<Rightarrow> db \<Rightarrow> bool \<Rightarrow>
   (exn + (((int \<times> string \<times> string \<times> string \<times> int) list
            \<times> (int \<times> string \<times> string \<times> string \<times> int \<times> int) list
            \<times> (int \<times> string \<times> string \<times> string \<times> int) list) \<times> bool)) \<times> db" where
  "lashinbang_main env keywords d update =
     (case lashinbang_init (l_now env) d of
        (con, nfo, c) \<Rightarrow>
          (case lashinbang_get_item env con nfo c keywords of
             (Inl e, con1, nfo1, c1) \<Rightarrow> (Inl e, committed con1)
           | (Inr _, con1, nfo1, c1) \<Rightarrow>
               (case lashinbang_compare (current con1) nfo1 of
                  (msg, nfo2) \<Rightarrow>
                    (let con2 = (if update then update_lashinbang con1 nfo2 else con1);
                         no_sound = (\<not> (truthy (info_new nfo2) \<or> truthy (info_discount nfo2)
                                         \<or> truthy (info_sold nfo2)))
                     in (Inr (msg, no_sound), committed con2)))))"

definition mercari_main ::
  "m_env \<Rightarrow> string list \<Rightarrow> db \<Rightarrow> bool \<Rightarrow>
   (exn + (((string \<times> string \<times> string \<times> string \<times> int) list
            \<times> (string \<times> string \<times> string \<times> string \<times> int \<times> int) list
            \<times> (string \<times> string \<times> string \<times> string \<times> int) list) \<times> bool)) \<times> db" where
  "mercari_main env keywords d update =
     (case mercari_init (m_now env) d of
        (con, nfo, c) \<Rightarrow>
          (case mercari_get_item env con nfo c keywords of
             (Inl e, con1, nfo1, c1) \<Rightarrow> (Inl e, committed con1)
           | (Inr _, con1, nfo1, c1) \<Rightarrow>
               (case mercari_compare (current con1) nfo1 of
                  (msg, nfo2) \<Rightarrow>
                    (let con2 = (if update then update_mercari con1 nfo2 else con1);
                         no_sound = (\<not> (truthy (info_new nfo2) \<or> truthy (info_discount nfo2)
                                         \<or> truthy (info_sold nfo2)))
                     in (Inr (msg, no_sound), committed con2)))))"

definition yahoo_main ::
  "'sp y_env \<Rightarrow> string list \<Rightarrow> db \<Rightarrow> bool \<Rightarrow>
   (exn + (((string \<times> string \<times> string \<times> string \<times> sqlval \<times> sqlval \<times> real \<times> int) list
            \<times> (string \<times> string \<times> string \<times> string
               \<times> sqlval \<times> sqlval \<times> sqlval \<times> sqlval \<times> real \<times> int) list
            \<times> (string \<times> string \<times> string \<times> string
               \<times> sqlval \<times> sqlval \<times> real \<times> int \<times> int) list)
           \<times> bool)) \<times> db" where
  "yahoo_main env keywords d update =
     (case yahoo_init (y_now env) d of
        (con, nfo, c) \<Rightarrow>
          (case yahoo_get_item env con nfo c keywords of
             (Inl e, con1, nfo1, c1) \<Rightarrow> (Inl e, committed con1)
           | (Inr _, con1, nfo1, c1) \<Rightarrow>
               (case yahoo_compare (current con1) nfo1 of
                  (msg, nfo2) \<Rightarrow>
                    (let con2 = (if update then update_yahoo con1 nfo2 else con1);
                         no_sound = (\<not> (truthy (info_new nfo2) \<or> truthy (info_discount nfo2)
                                         \<or> truthy (info_bid nfo2)))
                     in (Inr (msg, no_sound), committed con2)))))"

section \<open>The scheduled entry point\<close>

text \<open>
  \<open>bot_autorun.main\<close>: the configuration gives the keyword lists of the three sites; each
  site's \<open>main\<close> is called with the keywords and the database path only, one after the
  other on the same database file, and an exception of one of them ends the run.
\<close>

record config =
  cfg_lashinbang :: "string list"
  cfg_mercari :: "string list"
  cfg_yahoo :: "string list"

definition autorun_main where
  "autorun_main (le :: 'js l_env) (me :: m_env) (ye :: 'sp y_env) (cfg :: config) (d :: db) =
     (case lashinbang_main le (cfg_lashinbang cfg) d False of
        (Inl e, d1) \<Rightarrow> (Inl e, d1)
      | (Inr r1, d1) \<Rightarrow>
          (case mercari_main me (cfg_mercari cfg) d1 False of
             (Inl e, d2) \<Rightarrow> (Inl e, d2)
           | (Inr r2, d2) \<Rightarrow>
               (case yahoo_main ye (cfg_yahoo cfg) d2 False of
                  (Inl e, d3) \<Rightarrow> (Inl e, d3)
                | (Inr r3, d3) \<Rightarrow> (Inr (fst r1, fst r2, fst r3), d3))))"

section \<open>Concrete states\<close>

text \<open>Small tables and run metadata on which the theorems below are instantiated.\<close>

definition ex_info :: "real \<Rightarrow> int \<Rightarrow> info" where
  "ex_info lst err =
     \<lparr>info_site = ''site'', info_time = 200, info_last = lst, info_error = err,
      info_page = 1, info_count = 1, info_new = 0, info_discount = 0, info_sold = 0,
      info_bid = 0\<rparr>"

definition ex_l_row :: "int \<Rightarrow> string \<Rightarrow> int \<Rightarrow> real \<Rightarrow> l_row" where
  "ex_l_row i ttl p tm =
     \<lparr>l_item_id = i, l_title = ttl, l_item_url = ''u'', l_image_url = ''g'', l_price = p,
      l_record_time = Some tm, l_update_time = Some tm\<rparr>"

definition ex_m_row :: "string \<Rightarrow> string \<Rightarrow> int \<Rightarrow> int \<Rightarrow> real \<Rightarrow> m_row" where
  "ex_m_row i ttl p s tm =
     \<lparr>m_item_id = i, m_seller_id = ''s'', m_title = ttl, m_item_url = ''u'',
      m_image_url = ''g'', m_price = p, m_onsale = s,
      m_record_time = Some tm, m_update_time = Some tm\<rparr>"

definition ex_y_row :: "string \<Rightarrow> string \<Rightarrow> int \<Rightarrow> int \<Rightarrow> int \<Rightarrow> real \<Rightarrow> y_row" where
  "ex_y_row i ttl b f n tm =
     \<lparr>y_item_id = i, y_seller_id = ''s'', y_title = ttl, y_item_url = ''u'',
      y_image_url = ''g'', y_bid_price = SqlNum (of_int b), y_full_price = SqlNum (of_int f),
      y_end = 300, y_bid_num = n,
      y_record_time = Some tm, y_update_time = Some tm\<rparr>"

definition ex_l_item :: "int \<Rightarrow> int \<Rightarrow> l_item" where
  "ex_l_item i p =
     \<lparr>li_item_id = i, li_title = ''t'', li_item_url = ''u'', li_image_url = ''g'',
      li_price = p\<rparr>"

definition ex_db :: db where
  "ex_db = \<lparr>lashinbang = [], lashinbang_temp = [], mercari = [], mercari_temp = [],
            yahoo = [], yahoo_temp = [], log = []\<rparr>"

text \<open>
  Two runs of the Lashinbang site on one keyword whose only page cannot be fetched: the
  request times out in the first and is answered with an HTTP error status in the second.
  The persistent table holds one item, seen in the last committed run.
\<close>

definition timeout_env :: "unit l_env" where
  "timeout_env =
     \<lparr>l_net = (\<lambda>r. case r of AgeCheck \<Rightarrow> Response [] | Search kw page \<Rightarrow> Raises Timeout),
      l_page_count = (\<lambda>text. Some 1),
      l_loads = (\<lambda>text. Inr ()),
      l_items = (\<lambda>js. Inr []),
      l_bindable = (\<lambda>i. True),
      l_now = 200\<rparr>"

definition http_error_env :: "unit l_env" where
  "http_error_env = timeout_env
     \<lparr>l_net := (\<lambda>r. case r of AgeCheck \<Rightarrow> Response [] | Search kw page \<Rightarrow> Raises HTTPError)\<rparr>"

definition ex_sold_db :: db where
  "ex_sold_db = ex_db\<lparr>lashinbang := [ex_l_row 7 ''B'' 700 100],
       log := [\<lparr>log_site = ''lashinbang'', log_time = 100, log_error = 0, log_page = 1,
                log_count = 1, log_new = 0, log_discount = 0, log_sold = 0\<rparr>]\<rparr>"


text \<open>
  A run of the Lashinbang site whose page yields two items, the second of which
  \<open>sqlite3\<close> cannot bind.
\<close>

definition ex_unbindable_env :: "unit l_env" where
  "ex_unbindable_env =
     \<lparr>l_net = (\<lambda>r. Response ''callback({})''),
      l_page_count = (\<lambda>text. Some 1),
      l_loads = (\<lambda>text. Inr ()),
      l_items = (\<lambda>js. Inr [ex_l_item 1 500, ex_l_item 2 600]),
      l_bindable = (\<lambda>i. li_item_id i = 1),
      l_now = 200\<rparr>"

text \<open>
  The affinity on the texts that the runs below bind, which are strings of decimal digits
  and the empty string: a string of digits is stored as its number, the empty string stays
  a text.
\<close>

definition ex_affinity :: "string \<Rightarrow> sqlval" where
  "ex_affinity s =
     (if s \<noteq> [] \<and> list_all (\<lambda>c. c \<in> set ''0123456789'') s
      then SqlNum (of_nat (foldl (\<lambda>n c. 10 * n + (of_char c - 48)) 0 s))
      else SqlText s)"

text \<open>
  Two runs of the Yahoo site on one keyword whose page lists one auction without bids. Its
  bid price is \<open>1000\<close> in both runs; its buy-now price is the empty string in the first
  run, which is committed, and \<open>5000\<close> in the second.
\<close>

definition ex_y_item :: "string \<Rightarrow> string \<Rightarrow> y_item" where
  "ex_y_item b f =
     \<lparr>yi_item_id = ''y1'', yi_seller_id = ''s'', yi_title = ''x'', yi_item_url = ''u'',
      yi_image_url = ''g'', yi_bid_price = b, yi_full_price = f, yi_end = 900,
      yi_bid_num = 0\<rparr>"

definition ex_y_page_env :: "string \<Rightarrow> real \<Rightarrow> unit y_env" where
  "ex_y_page_env f now =
     \<lparr>y_net = (\<lambda>r. Response ''page''), y_soup = (\<lambda>text. Inr ()),
      y_check_empty = (\<lambda>sp. False), y_items = (\<lambda>sp. Inr [ex_y_item ''1000'' f]),
      y_bindable = (\<lambda>i. True), y_affinity = ex_affinity, y_now = now\<rparr>"

definition ex_yahoo_db :: db where
  "ex_yahoo_db = ex_db\<lparr>log := [\<lparr>log_site = ''yahoo'', log_time = 100, log_error = 0,
       log_page = 1, log_count = 0, log_new = 0, log_discount = 0, log_sold = 0\<rparr>]\<rparr>"

definition ex_y_stored :: "sqlval \<Rightarrow> real \<Rightarrow> y_row" where
  "ex_y_stored f tm =
     \<lparr>y_item_id = ''y1'', y_seller_id = ''s'', y_title = ''x'', y_item_url = ''u'',
      y_image_url = ''g'', y_bid_price = SqlNum 1000, y_full_price = f, y_end = 900,
      y_bid_num = 0, y_record_time = Some tm, y_update_time = Some tm\<rparr>"

definition ex_yahoo_db_committed :: db where
  "ex_yahoo_db_committed =
     ex_db\<lparr>yahoo := [ex_y_stored (SqlText []) 200],
            yahoo_temp := [ex_y_stored (SqlText []) 200],
            log := [\<lparr>log_site = ''yahoo'', log_time = 100, log_error = 0, log_page = 1,
                     log_count = 0, log_new = 0, log_discount = 0, log_sold = 0\<rparr>,
                    \<lparr>log_site = ''yahoo'', log_time = 200, log_error = 0, log_page = 1,
                     log_count = 1, log_new = 1, log_discount = 0, log_sold = 0\<rparr>]\<rparr>"

text \<open>
  A scheduled run over the three sites with one keyword each: the Lashinbang request times
  out, Mercari answers with an empty \<open>data\<close> list and Yahoo with an empty result page.
\<close>

definition ex_m_env :: m_env where
  "ex_m_env =
     \<lparr>m_net = (\<lambda>r. Response (Some (Inr []))), m_bindable = (\<lambda>i. True), m_now = 201\<rparr>"

definition ex_y_env :: "unit y_env" where
  "ex_y_env =
     \<lparr>y_net = (\<lambda>r. Response []), y_soup = (\<lambda>text. Inr ()), y_check_empty = (\<lambda>sp. True),
      y_items = (\<lambda>sp. Inr []), y_bindable = (\<lambda>i. True), y_affinity = ex_affinity,
      y_now = 202\<rparr>"

definition ex_config :: config where
  "ex_config = \<lparr>cfg_lashinbang = [''kw''], cfg_mercari = [''kw''], cfg_yahoo = [''kw'']\<rparr>"

section \<open>Facts about the queries\<close>

lemmas ex_defs = ex_info_def ex_l_row_def ex_m_row_def ex_y_row_def ex_db_def ex_l_item_def

lemma image_filter_iff:
  "i \<in> f ` set (filter P xs) \<longleftrightarrow> (\<exists>p \<in> set xs. f p = i \<and> P p)"
  by auto

lemma mercari_sold_mem:
  "t \<in> set (mercari_sold d) \<longleftrightarrow>
     t \<in> set (mercari_temp d) \<and> m_onsale t = 0 \<and>
     (m_item_id t \<notin> m_item_id ` set (mercari d)
      \<or> (\<exists>p \<in> set (mercari d). m_item_id p = m_item_id t \<and> m_onsale p = 1))"
  unfolding mercari_sold_def set_filter set_map image_filter_iff[symmetric] by simp

lemma fst_m_select: "fst \<circ> m_select = m_item_id"
  by (rule ext) (simp add: m_select_def)

lemma mercari_compare_sold:
  "info_last nfo \<noteq> 0 \<Longrightarrow>
     snd (snd (fst (mercari_compare d nfo))) = map m_select (mercari_sold d)"
  by (simp add: mercari_compare_def Let_def)

lemma lashinbang_new_mem:
  "t \<in> set (lashinbang_new d lst) \<longleftrightarrow>
     t \<in> set (lashinbang_temp d) \<and>
     (l_item_id t \<notin> l_item_id ` set (lashinbang d)
      \<or> (\<exists>p \<in> set (lashinbang d). l_item_id p = l_item_id t \<and> sql_lt (l_update_time p) lst))"
  unfolding lashinbang_new_def set_filter set_map image_filter_iff[symmetric] by simp

lemma yahoo_new_mem:
  "t \<in> set (yahoo_new d lst) \<longleftrightarrow>
     t \<in> set (yahoo_temp d) \<and>
     (y_item_id t \<notin> y_item_id ` set (yahoo d)
      \<or> (\<exists>p \<in> set (yahoo d). y_item_id p = y_item_id t \<and> sql_lt (y_update_time p) lst))"
  unfolding yahoo_new_def set_filter set_map image_filter_iff[symmetric] by simp

lemma mercari_new_mem:
  "t \<in> set (mercari_new d) \<longleftrightarrow>
     t \<in> set (mercari_temp d) \<and> m_onsale t = 1 \<and>
     (m_item_id t \<notin> m_item_id ` set (mercari d)
      \<or> (\<exists>p \<in> set (mercari d). m_item_id p = m_item_id t \<and> m_onsale p = 0))"
  unfolding mercari_new_def set_filter set_map image_filter_iff[symmetric] by simp

lemma fst_l_select: "fst \<circ> l_select = l_item_id"
  by (rule ext) (simp add: l_select_def)

lemma fst_y_select: "fst \<circ> y_select = y_item_id"
  by (rule ext) (simp add: y_select_def)

lemma lashinbang_compare_new:
  "info_last nfo \<noteq> 0 \<Longrightarrow>
     fst (fst (lashinbang_compare d nfo)) = map l_select (lashinbang_new d (info_last nfo))"
  by (simp add: lashinbang_compare_def Let_def)

lemma mercari_compare_new:
  "info_last nfo \<noteq> 0 \<Longrightarrow> fst (fst (mercari_compare d nfo)) = map m_select (mercari_new d)"
  by (simp add: mercari_compare_def Let_def)

lemma yahoo_compare_new:
  "info_last nfo \<noteq> 0 \<Longrightarrow>
     fst (fst (yahoo_compare d nfo)) = map y_select (yahoo_new d (info_last nfo - 86400))"
  by (simp add: yahoo_compare_def Let_def)

lemma lashinbang_new_ids:
  "l_item_id ` set (lashinbang_new d lst) =
     {i. \<exists>t \<in> set (lashinbang_temp d). l_item_id t = i \<and>
        (i \<notin> l_item_id ` set (lashinbang d)
         \<or> (\<exists>p \<in> set (lashinbang d). l_item_id p = i \<and> sql_lt (l_update_time p) lst))}"
proof (rule set_eqI)
  fix i
  have "i \<in> l_item_id ` set (lashinbang_new d lst)
          \<longleftrightarrow> (\<exists>t. t \<in> set (lashinbang_new d lst) \<and> l_item_id t = i)"
    by blast
  also have "\<dots> \<longleftrightarrow> (\<exists>t \<in> set (lashinbang_temp d). l_item_id t = i \<and>
        (i \<notin> l_item_id ` set (lashinbang d)
         \<or> (\<exists>p \<in> set (lashinbang d). l_item_id p = i \<and> sql_lt (l_update_time p) lst)))"
    unfolding lashinbang_new_mem by blast
  finally show "i \<in> l_item_id ` set (lashinbang_new d lst) \<longleftrightarrow>
     i \<in> {i. \<exists>t \<in> set (lashinbang_temp d). l_item_id t = i \<and>
        (i \<notin> l_item_id ` set (lashinbang d)
         \<or> (\<exists>p \<in> set (lashinbang d). l_item_id p = i \<and> sql_lt (l_update_time p) lst))}"
    by simp
qed

lemma yahoo_new_ids:
  "y_item_id ` set (yahoo_new d lst) =
     {i. \<exists>t \<in> set (yahoo_temp d). y_item_id t = i \<and>
        (i \<notin> y_item_id ` set (yahoo d)
         \<or> (\<exists>p \<in> set (yahoo d). y_item_id p = i \<and> sql_lt (y_update_time p) lst))}"
proof (rule set_eqI)
  fix i
  have "i \<in> y_item_id ` set (yahoo_new d lst)
          \<longleftrightarrow> (\<exists>t. t \<in> set (yahoo_new d lst) \<and> y_item_id t = i)"
    by blast
  also have "\<dots> \<longleftrightarrow> (\<exists>t \<in> set (yahoo_temp d). y_item_id t = i \<and>
        (i \<notin> y_item_id ` set (yahoo d)
         \<or> (\<exists>p \<in> set (yahoo d). y_item_id p = i \<and> sql_lt (y_update_time p) lst)))"
    unfolding yahoo_new_mem by blast
  finally show "i \<in> y_item_id ` set (yahoo_new d lst) \<longleftrightarrow>
     i \<in> {i. \<exists>t \<in> set (yahoo_temp d). y_item_id t = i \<and>
        (i \<notin> y_item_id ` set (yahoo d)
         \<or> (\<exists>p \<in> set (yahoo d). y_item_id p = i \<and> sql_lt (y_update_time p) lst))}"
    by simp
qed

lemma mercari_new_ids:
  "m_item_id ` set (mercari_new d) =
     {i. \<exists>t \<in> set (mercari_temp d). m_item_id t = i \<and> m_onsale t = 1 \<and>
        (i \<notin> m_item_id ` set (mercari d)
         \<or> (\<exists>p \<in> set (mercari d). m_item_id p = i \<and> m_onsale p = 0))}"
proof (rule set_eqI)
  fix i
  have "i \<in> m_item_id ` set (mercari_new d)
          \<longleftrightarrow> (\<exists>t. t \<in> set (mercari_new d) \<and> m_item_id t = i)"
    by blast
  also have "\<dots> \<longleftrightarrow> (\<exists>t \<in> set (mercari_temp d). m_item_id t = i \<and> m_onsale t = 1 \<and>
        (i \<notin> m_item_id ` set (mercari d)
         \<or> (\<exists>p \<in> set (mercari d). m_item_id p = i \<and> m_onsale p = 0)))"
    unfolding mercari_new_mem by blast
  finally show "i \<in> m_item_id ` set (mercari_new d) \<longleftrightarrow>
     i \<in> {i. \<exists>t \<in> set (mercari_temp d). m_item_id t = i \<and> m_onsale t = 1 \<and>
        (i \<notin> m_item_id ` set (mercari d)
         \<or> (\<exists>p \<in> set (mercari d). m_item_id p = i \<and> m_onsale p = 0))}"
    by simp
qed

lemma distinct_same_id:
  "distinct (map f xs) \<Longrightarrow> p \<in> set xs \<Longrightarrow> q \<in> set xs \<Longrightarrow> f p = f q \<Longrightarrow> p = q"
  by (meson distinct_map inj_onD)

lemma lashinbang_discount_mem:
  "r \<in> set (lashinbang_discount d) \<longleftrightarrow>
     (\<exists>t \<in> set (lashinbang_temp d). \<exists>l \<in> set (lashinbang d).
        l_item_id t = l_item_id l \<and> l_price l > l_price t
        \<and> r = (l_item_id l, l_title l, l_item_url l, l_image_url l, l_price l, l_price t))"
  unfolding lashinbang_discount_def by auto

lemma mercari_discount_mem:
  "r \<in> set (mercari_discount d) \<longleftrightarrow>
     (\<exists>t \<in> set (mercari_temp d). \<exists>l \<in> set (mercari d).
        m_item_id t = m_item_id l \<and> m_price l > m_price t \<and> m_onsale t = 1
        \<and> r = (m_item_id t, m_title t, m_item_url t, m_image_url t, m_price l, m_price t))"
  unfolding mercari_discount_def by auto (metis (no_types))

lemma yahoo_discount_mem:
  "r \<in> set (yahoo_discount d) \<longleftrightarrow>
     (\<exists>t \<in> set (yahoo_temp d). \<exists>l \<in> set (yahoo d).
        y_item_id t = y_item_id l
        \<and> (sql_gt (y_bid_price l) (y_bid_price t) \<or> sql_gt (y_full_price l) (y_full_price t))
        \<and> y_bid_num l = 0
        \<and> r = (y_item_id t, y_title t, y_item_url t, y_image_url t,
               y_bid_price l, y_full_price l, y_bid_price t, y_full_price t,
               y_end t, y_bid_num t))"
  unfolding yahoo_discount_def by auto (metis (no_types))+

lemma compare_discount:
  "set (fst (snd (fst (lashinbang_compare d nfo)))) \<subseteq> set (lashinbang_discount d)"
  "set (fst (snd (fst (mercari_compare d nfo)))) \<subseteq> set (mercari_discount d)"
  "set (fst (snd (fst (yahoo_compare d nfo)))) \<subseteq> set (yahoo_discount d)"
  by (simp_all add: lashinbang_compare_def mercari_compare_def yahoo_compare_def Let_def)

lemma mercari_sold_ids:
  "m_item_id ` set (mercari_sold d) =
     {i. \<exists>t \<in> set (mercari_temp d). m_item_id t = i \<and> m_onsale t = 0 \<and>
        (i \<notin> m_item_id ` set (mercari d)
         \<or> (\<exists>p \<in> set (mercari d). m_item_id p = i \<and> m_onsale p = 1))}"
proof (rule set_eqI)
  fix i
  have "i \<in> m_item_id ` set (mercari_sold d)
          \<longleftrightarrow> (\<exists>t. t \<in> set (mercari_sold d) \<and> m_item_id t = i)"
    by blast
  also have "\<dots> \<longleftrightarrow> (\<exists>t \<in> set (mercari_temp d). m_item_id t = i \<and> m_onsale t = 0 \<and>
        (i \<notin> m_item_id ` set (mercari d)
         \<or> (\<exists>p \<in> set (mercari d). m_item_id p = i \<and> m_onsale p = 1)))"
    unfolding mercari_sold_mem by blast
  finally show "i \<in> m_item_id ` set (mercari_sold d) \<longleftrightarrow>
     i \<in> {i. \<exists>t \<in> set (mercari_temp d). m_item_id t = i \<and> m_onsale t = 0 \<and>
        (i \<notin> m_item_id ` set (mercari d)
         \<or> (\<exists>p \<in> set (mercari d). m_item_id p = i \<and> m_onsale p = 1))}"
    by simp
qed

lemma yahoo_bid_ids:
  "fst ` set (yahoo_bid d) =
     {i. \<exists>t \<in> set (yahoo_temp d). \<exists>l \<in> set (yahoo d).
           y_item_id t = i \<and> y_item_id l = i \<and> y_bid_num l < y_bid_num t}"
proof (rule set_eqI)
  fix i
  have "i \<in> fst ` set (yahoo_bid d) \<longleftrightarrow>
          (\<exists>t \<in> set (yahoo_temp d). \<exists>l \<in> set (yahoo d).
             y_item_id t = y_item_id l \<and> y_bid_num l < y_bid_num t \<and> i = y_item_id t)"
    unfolding yahoo_bid_def by (auto simp add: image_iff) (metis (no_types))+
  also have "\<dots> \<longleftrightarrow> (\<exists>t \<in> set (yahoo_temp d). \<exists>l \<in> set (yahoo d).
           y_item_id t = i \<and> y_item_id l = i \<and> y_bid_num l < y_bid_num t)"
    by (metis (no_types))
  finally show "i \<in> fst ` set (yahoo_bid d) \<longleftrightarrow>
     i \<in> {i. \<exists>t \<in> set (yahoo_temp d). \<exists>l \<in> set (yahoo d).
           y_item_id t = i \<and> y_item_id l = i \<and> y_bid_num l < y_bid_num t}"
    by simp
qed

lemma yahoo_compare_third:
  "info_last nfo \<noteq> 0 \<Longrightarrow>
     snd (snd (fst (yahoo_compare d nfo))) = yahoo_bid d
     \<and> info_bid (snd (yahoo_compare d nfo)) = int (length (yahoo_bid d))"
  "info_sold (snd (yahoo_compare d nfo)) = info_sold nfo"
  by (simp_all add: yahoo_compare_def Let_def)

text \<open>
  What the three discount queries guarantee: a listed row has a staged and a persisted row
  of its id, and the persisted price is greater than the staged one; for Yahoo, one of the
  two persisted prices is greater than the staged one in the order of SQLite on the stored
  values, and the persisted bid count is zero.
\<close>

lemma discount_rows:
  "(\<forall>r \<in> set (fst (snd (fst (lashinbang_compare d nfo)))).
      \<exists>t \<in> set (lashinbang_temp d). \<exists>l \<in> set (lashinbang d).
        l_item_id t = fst r \<and> l_item_id l = fst r \<and> l_price l > l_price t)
   \<and> (\<forall>r \<in> set (fst (snd (fst (mercari_compare d nfo)))).
      \<exists>t \<in> set (mercari_temp d). \<exists>l \<in> set (mercari d).
        m_item_id t = fst r \<and> m_item_id l = fst r \<and> m_price l > m_price t)
   \<and> (\<forall>r \<in> set (fst (snd (fst (yahoo_compare d nfo)))).
      \<exists>t \<in> set (yahoo_temp d). \<exists>l \<in> set (yahoo d).
        y_item_id t = fst r \<and> y_item_id l = fst r
        \<and> (sql_gt (y_bid_price l) (y_bid_price t) \<or> sql_gt (y_full_price l) (y_full_price t))
        \<and> y_bid_num l = 0)"
proof (intro conjI ballI)
  fix r assume "r \<in> set (fst (snd (fst (lashinbang_compare d nfo))))"
  then have "r \<in> set (lashinbang_discount d)" using compare_discount(1) by blast
  then show "\<exists>t \<in> set (lashinbang_temp d). \<exists>l \<in> set (lashinbang d).
        l_item_id t = fst r \<and> l_item_id l = fst r \<and> l_price l > l_price t"
    unfolding lashinbang_discount_mem by force
next
  fix r assume "r \<in> set (fst (snd (fst (mercari_compare d nfo))))"
  then have "r \<in> set (mercari_discount d)" using compare_discount(2) by blast
  then show "\<exists>t \<in> set (mercari_temp d). \<exists>l \<in> set (mercari d).
        m_item_id t = fst r \<and> m_item_id l = fst r \<and> m_price l > m_price t"
    unfolding mercari_discount_mem by force
next
  fix r assume "r \<in> set (fst (snd (fst (yahoo_compare d nfo))))"
  then have "r \<in> set (yahoo_discount d)" using compare_discount(3) by blast
  then show "\<exists>t \<in> set (yahoo_temp d). \<exists>l \<in> set (yahoo d).
        y_item_id t = fst r \<and> y_item_id l = fst r
        \<and> (sql_gt (y_bid_price l) (y_bid_price t) \<or> sql_gt (y_full_price l) (y_full_price t))
        \<and> y_bid_num l = 0"
    unfolding yahoo_discount_mem by force
qed

section \<open>Facts about the merge of staging into the persistent table\<close>




















section \<open>Facts about the staging write\<close>

lemma l_executemany_ok:
  "list_all ok data \<Longrightarrow> l_executemany ok t data = (None, foldl l_insert_or_ignore t data)"
  by (induction data arbitrary: t) simp_all

lemma l_executemany_fail:
  "\<not> list_all ok data \<Longrightarrow> fst (l_executemany ok t data) = Some DatabaseError"
  by (induction data arbitrary: t) simp_all

lemma lashinbang_to_table_fail:
  assumes "\<not> list_all ok data"
  shows "lashinbang_to_table ok con nfo data = (Inl DatabaseError, con\<lparr>current := committed con\<rparr>)"
proof -
  obtain t where "l_executemany ok (lashinbang_temp (current con)) data = (Some DatabaseError, t)"
    using l_executemany_fail [OF assms, of "lashinbang_temp (current con)"]
    by (cases "l_executemany ok (lashinbang_temp (current con)) data") simp
  then show ?thesis by (simp add: lashinbang_to_table_def rollback_def)
qed

lemma lashinbang_to_table_ok:
  assumes "list_all ok data"
  shows "lashinbang_to_table ok con nfo data =
           (Inr (), commit (con\<lparr>current := (current con)\<lparr>lashinbang_temp :=
              map (l_stamp (info_time nfo))
                (foldl l_insert_or_ignore (lashinbang_temp (current con)) data)\<rparr>\<rparr>))"
  by (simp add: lashinbang_to_table_def l_executemany_ok [OF assms])

lemma m_executemany_ok:
  "list_all ok data \<Longrightarrow> m_executemany ok t data = (None, foldl m_insert_or_ignore t data)"
  by (induction data arbitrary: t) simp_all

lemma m_executemany_fail:
  "\<not> list_all ok data \<Longrightarrow> fst (m_executemany ok t data) = Some DatabaseError"
  by (induction data arbitrary: t) simp_all

lemma mercari_to_table_fail:
  assumes "\<not> list_all ok data"
  shows "mercari_to_table ok con nfo data = (Inl DatabaseError, con\<lparr>current := committed con\<rparr>)"
proof -
  obtain t where "m_executemany ok (mercari_temp (current con)) data = (Some DatabaseError, t)"
    using m_executemany_fail [OF assms, of "mercari_temp (current con)"]
    by (cases "m_executemany ok (mercari_temp (current con)) data") simp
  then show ?thesis by (simp add: mercari_to_table_def rollback_def)
qed

lemma mercari_to_table_ok:
  assumes "list_all ok data"
  shows "mercari_to_table ok con nfo data =
           (Inr (), commit (con\<lparr>current := (current con)\<lparr>mercari_temp :=
              map (m_stamp (info_time nfo))
                (foldl m_insert_or_ignore (mercari_temp (current con)) data)\<rparr>\<rparr>))"
  by (simp add: mercari_to_table_def m_executemany_ok [OF assms])

lemma y_executemany_ok:
  "list_all ok data \<Longrightarrow> y_executemany ok aff t data = (None, foldl (y_insert_or_ignore aff) t data)"
  by (induction data arbitrary: t) simp_all

lemma y_executemany_fail:
  "\<not> list_all ok data \<Longrightarrow> fst (y_executemany ok aff t data) = Some DatabaseError"
  by (induction data arbitrary: t) simp_all

lemma yahoo_to_table_fail:
  assumes "\<not> list_all ok data"
  shows "yahoo_to_table ok aff con nfo data = (Inl DatabaseError, con\<lparr>current := committed con\<rparr>)"
proof -
  obtain t where "y_executemany ok aff (yahoo_temp (current con)) data = (Some DatabaseError, t)"
    using y_executemany_fail [OF assms, where t = "yahoo_temp (current con)" and aff = aff]
    by (cases "y_executemany ok aff (yahoo_temp (current con)) data") simp
  then show ?thesis by (simp add: yahoo_to_table_def rollback_def)
qed

lemma yahoo_to_table_ok:
  assumes "list_all ok data"
  shows "yahoo_to_table ok aff con nfo data =
           (Inr (), commit (con\<lparr>current := (current con)\<lparr>yahoo_temp :=
              map (y_stamp (info_time nfo))
                (foldl (y_insert_or_ignore aff) (yahoo_temp (current con)) data)\<rparr>\<rparr>))"
  by (simp add: yahoo_to_table_def y_executemany_ok [OF assms])

lemma lashinbang_main_insert_fails:
  assumes "lashinbang_get_many (l_net env) (l_page_count env) new_crawler kws = (Inr raw, c1)"
    and "l_parse (l_loads env) (l_items env) (l_pages raw) (error_count c1) [] = Inr (err, items)"
    and "\<not> list_all (l_bindable env) items"
  shows "lashinbang_main env kws d upd = (Inl DatabaseError, d\<lparr>lashinbang_temp := []\<rparr>)"
  using assms(1,2)
  by (simp add: lashinbang_main_def lashinbang_init_def lashinbang_get_item_def
        lashinbang_to_table_fail [OF assms(3)] connect_def Let_def)

lemma mercari_main_insert_fails:
  assumes "mercari_get_many (m_net env) new_crawler [] kws = (raw, c1)"
    and "m_parse (map snd raw) (error_count c1) [] = Inr (err, items)"
    and "\<not> list_all (m_bindable env) items"
  shows "mercari_main env kws d upd = (Inl DatabaseError, d\<lparr>mercari_temp := []\<rparr>)"
  using assms(1,2)
  by (simp add: mercari_main_def mercari_init_def mercari_get_item_def
        mercari_to_table_fail [OF assms(3)] connect_def Let_def)

lemma yahoo_main_insert_fails:
  assumes "yahoo_get_many (y_net env) new_crawler [] kws = (raw, c1)"
    and "y_parse (y_soup env) (y_check_empty env) (y_items env) (map snd raw) (error_count c1) []
           = Inr (err, items)"
    and "\<not> list_all (y_bindable env) items"
  shows "yahoo_main env kws d upd = (Inl DatabaseError, d\<lparr>yahoo_temp := []\<rparr>)"
  using assms(1,2)
  by (simp add: yahoo_main_def yahoo_init_def yahoo_get_item_def
        yahoo_to_table_fail [OF assms(3)] connect_def Let_def)

section \<open>Facts about a run without update\<close>

lemma lashinbang_to_table_committed:
  assumes "current con = committed con"
  shows "\<exists>T. committed (snd (lashinbang_to_table ok con nfo data))
               = (committed con)\<lparr>lashinbang_temp := T\<rparr>"
proof (cases "list_all ok data")
  case True
  show ?thesis
    unfolding lashinbang_to_table_ok [OF True] using assms by (auto simp add: commit_def)
next
  case False
  show ?thesis
    unfolding lashinbang_to_table_fail [OF False]
    by (rule exI [of _ "lashinbang_temp (committed con)"]) simp
qed

lemma lashinbang_get_item_committed:
  assumes "current con = committed con"
  shows "\<exists>T. committed (fst (snd (lashinbang_get_item env con nfo c kws)))
               = (committed con)\<lparr>lashinbang_temp := T\<rparr>"
proof -
  have same: "\<exists>T. committed con = (committed con)\<lparr>lashinbang_temp := T\<rparr>"
    by (rule exI [of _ "lashinbang_temp (committed con)"]) simp
  have tt: "\<exists>T. committed (snd (lashinbang_to_table ok con nfo' data))
               = (committed con)\<lparr>lashinbang_temp := T\<rparr>" for ok nfo' data
    using assms by (rule lashinbang_to_table_committed)
  show ?thesis
    unfolding lashinbang_get_item_def Let_def
    by (simp add: split_beta same tt split: sum.splits)
qed

lemma lashinbang_main_no_update:
  "\<exists>T. snd (lashinbang_main env kws d False) = d\<lparr>lashinbang_temp := T\<rparr>"
proof -
  let ?con = "connect (d\<lparr>lashinbang_temp := []\<rparr>)"
  have "current ?con = committed ?con" by (simp add: connect_def)
  then obtain T where T: "committed (fst (snd (lashinbang_get_item env ?con
        (new_info ''lashinbang'' (l_now env) (log d)) new_crawler kws)))
      = (committed ?con)\<lparr>lashinbang_temp := T\<rparr>"
    using lashinbang_get_item_committed by blast
  have "snd (lashinbang_main env kws d False)
          = committed (fst (snd (lashinbang_get_item env ?con
              (new_info ''lashinbang'' (l_now env) (log d)) new_crawler kws)))"
    by (simp add: lashinbang_main_def lashinbang_init_def Let_def split_beta split: sum.splits)
  then have "snd (lashinbang_main env kws d False) = d\<lparr>lashinbang_temp := T\<rparr>"
    unfolding T by (simp add: connect_def)
  then show ?thesis by (rule exI)
qed

lemma mercari_to_table_committed:
  assumes "current con = committed con"
  shows "\<exists>T. committed (snd (mercari_to_table ok con nfo data))
               = (committed con)\<lparr>mercari_temp := T\<rparr>"
proof (cases "list_all ok data")
  case True
  show ?thesis
    unfolding mercari_to_table_ok [OF True] using assms by (auto simp add: commit_def)
next
  case False
  show ?thesis
    unfolding mercari_to_table_fail [OF False]
    by (rule exI [of _ "mercari_temp (committed con)"]) simp
qed

lemma mercari_get_item_committed:
  assumes "current con = committed con"
  shows "\<exists>T. committed (fst (snd (mercari_get_item env con nfo c kws)))
               = (committed con)\<lparr>mercari_temp := T\<rparr>"
proof -
  have same: "\<exists>T. committed con = (committed con)\<lparr>mercari_temp := T\<rparr>"
    by (rule exI [of _ "mercari_temp (committed con)"]) simp
  have tt: "\<exists>T. committed (snd (mercari_to_table ok con nfo' data))
               = (committed con)\<lparr>mercari_temp := T\<rparr>" for ok nfo' data
    using assms by (rule mercari_to_table_committed)
  show ?thesis
    unfolding mercari_get_item_def Let_def
    by (simp add: split_beta same tt split: sum.splits)
qed

lemma mercari_main_no_update:
  "\<exists>T. snd (mercari_main env kws d False) = d\<lparr>mercari_temp := T\<rparr>"
proof -
  let ?con = "connect (d\<lparr>mercari_temp := []\<rparr>)"
  have "current ?con = committed ?con" by (simp add: connect_def)
  then obtain T where T: "committed (fst (snd (mercari_get_item env ?con
        (new_info ''mercari'' (m_now env) (log d)) new_crawler kws)))
      = (committed ?con)\<lparr>mercari_temp := T\<rparr>"
    using mercari_get_item_committed by blast
  have "snd (mercari_main env kws d False)
          = committed (fst (snd (mercari_get_item env ?con
              (new_info ''mercari'' (m_now env) (log d)) new_crawler kws)))"
    by (simp add: mercari_main_def mercari_init_def Let_def split_beta split: sum.splits)
  then have "snd (mercari_main env kws d False) = d\<lparr>mercari_temp := T\<rparr>"
    unfolding T by (simp add: connect_def)
  then show ?thesis by (rule exI)
qed

lemma yahoo_to_table_committed:
  assumes "current con = committed con"
  shows "\<exists>T. committed (snd (yahoo_to_table ok aff con nfo data))
               = (committed con)\<lparr>yahoo_temp := T\<rparr>"
proof (cases "list_all ok data")
  case True
  show ?thesis
    unfolding yahoo_to_table_ok [OF True] using assms by (auto simp add: commit_def)
next
  case False
  show ?thesis
    unfolding yahoo_to_table_fail [OF False]
    by (rule exI [of _ "yahoo_temp (committed con)"]) simp
qed

lemma yahoo_get_item_committed:
  assumes "current con = committed con"
  shows "\<exists>T. committed (fst (snd (yahoo_get_item env con nfo c kws)))
               = (committed con)\<lparr>yahoo_temp := T\<rparr>"
proof -
  have same: "\<exists>T. committed con = (committed con)\<lparr>yahoo_temp := T\<rparr>"
    by (rule exI [of _ "yahoo_temp (committed con)"]) simp
  have tt: "\<exists>T. committed (snd (yahoo_to_table ok aff con nfo' data))
               = (committed con)\<lparr>yahoo_temp := T\<rparr>" for ok aff nfo' data
    using assms by (rule yahoo_to_table_committed)
  show ?thesis
    unfolding yahoo_get_item_def Let_def
    by (simp add: split_beta same tt split: sum.splits)
qed

lemma yahoo_main_no_update:
  "\<exists>T. snd (yahoo_main env kws d False) = d\<lparr>yahoo_temp := T\<rparr>"
proof -
  let ?con = "connect (d\<lparr>yahoo_temp := []\<rparr>)"
  have "current ?con = committed ?con" by (simp add: connect_def)
  then obtain T where T: "committed (fst (snd (yahoo_get_item env ?con
        (new_info ''yahoo'' (y_now env) (log d)) new_crawler kws)))
      = (committed ?con)\<lparr>yahoo_temp := T\<rparr>"
    using yahoo_get_item_committed by blast
  have "snd (yahoo_main env kws d False)
          = committed (fst (snd (yahoo_get_item env ?con
              (new_info ''yahoo'' (y_now env) (log d)) new_crawler kws)))"
    by (simp add: yahoo_main_def yahoo_init_def Let_def split_beta split: sum.splits)
  then have "snd (yahoo_main env kws d False) = d\<lparr>yahoo_temp := T\<rparr>"
    unfolding T by (simp add: connect_def)
  then show ?thesis by (rule exI)
qed

lemma autorun_main_db:
  "\<exists>L M Y. snd (autorun_main le me ye cfg d) = d\<lparr>lashinbang_temp := L\<rparr>
     \<or> snd (autorun_main le me ye cfg d) = d\<lparr>lashinbang_temp := L, mercari_temp := M\<rparr>
     \<or> snd (autorun_main le me ye cfg d)
          = d\<lparr>lashinbang_temp := L, mercari_temp := M, yahoo_temp := Y\<rparr>"
proof -
  obtain L where L: "snd (lashinbang_main le (cfg_lashinbang cfg) d False)
      = d\<lparr>lashinbang_temp := L\<rparr>"
    using lashinbang_main_no_update by blast
  obtain M where M: "snd (mercari_main me (cfg_mercari cfg) (d\<lparr>lashinbang_temp := L\<rparr>) False)
      = d\<lparr>lashinbang_temp := L, mercari_temp := M\<rparr>"
    using mercari_main_no_update by blast
  obtain Y where Y: "snd (yahoo_main ye (cfg_yahoo cfg)
        (d\<lparr>lashinbang_temp := L, mercari_temp := M\<rparr>) False)
      = d\<lparr>lashinbang_temp := L, mercari_temp := M, yahoo_temp := Y\<rparr>"
    using yahoo_main_no_update by blast
  obtain r1 where r1: "lashinbang_main le (cfg_lashinbang cfg) d False
      = (r1, d\<lparr>lashinbang_temp := L\<rparr>)"
    using L by (metis prod.collapse)
  obtain r2 where r2: "mercari_main me (cfg_mercari cfg) (d\<lparr>lashinbang_temp := L\<rparr>) False
      = (r2, d\<lparr>lashinbang_temp := L, mercari_temp := M\<rparr>)"
    using M by (metis prod.collapse)
  obtain r3 where r3: "yahoo_main ye (cfg_yahoo cfg)
        (d\<lparr>lashinbang_temp := L, mercari_temp := M\<rparr>) False
      = (r3, d\<lparr>lashinbang_temp := L, mercari_temp := M, yahoo_temp := Y\<rparr>)"
    using Y by (metis prod.collapse)
  have "snd (autorun_main le me ye cfg d) = d\<lparr>lashinbang_temp := L\<rparr>
     \<or> snd (autorun_main le me ye cfg d) = d\<lparr>lashinbang_temp := L, mercari_temp := M\<rparr>
     \<or> snd (autorun_main le me ye cfg d)
          = d\<lparr>lashinbang_temp := L, mercari_temp := M, yahoo_temp := Y\<rparr>"
    unfolding autorun_main_def r1
    by (cases r1; cases r2; cases r3) (simp_all add: r2 r3)
  then show ?thesis by blast
qed

section \<open>Two runs with a page that cannot be fetched\<close>

lemma timeout_get_many:
  "lashinbang_get_many (l_net timeout_env) (l_page_count timeout_env) new_crawler [''kw'']
   = (Inr [(''kw'', 1, [(1, None)])],
      \<lparr>error_count = 0, requests = [AgeCheck, Search ''kw'' 1]\<rparr>)"
  by (simp add: lashinbang_get_many_def pass_age_check_def lashinbang_get_one_def
        timeout_env_def new_crawler_def MAX_PAGE_LIMIT_def l_pages_of_def Let_def)

lemma http_error_get_many:
  "lashinbang_get_many (l_net http_error_env) (l_page_count http_error_env) new_crawler [''kw'']
   = (Inr [(''kw'', 1, [(1, None)])],
      \<lparr>error_count = 1, requests = [AgeCheck, Search ''kw'' 1]\<rparr>)"
  by (simp add: lashinbang_get_many_def pass_age_check_def lashinbang_get_one_def
        timeout_env_def http_error_env_def new_crawler_def MAX_PAGE_LIMIT_def l_pages_of_def Let_def)

lemma timeout_get_item:
  "lashinbang_get_item timeout_env con nfo new_crawler [''kw'']
   = (Inr (), commit (con\<lparr>current := (current con)\<lparr>lashinbang_temp :=
          map (l_stamp (info_time nfo)) (lashinbang_temp (current con))\<rparr>\<rparr>),
        nfo\<lparr>info_page := 1, info_error := 0, info_count := 0\<rparr>,
        \<lparr>error_count = 0, requests = [AgeCheck, Search ''kw'' 1]\<rparr>)"
  unfolding lashinbang_get_item_def timeout_get_many
  by (simp add: l_pages_def lashinbang_to_table_def timeout_env_def)

lemma http_error_get_item:
  "lashinbang_get_item http_error_env con nfo new_crawler [''kw'']
   = (Inr (), commit (con\<lparr>current := (current con)\<lparr>lashinbang_temp :=
          map (l_stamp (info_time nfo)) (lashinbang_temp (current con))\<rparr>\<rparr>),
        nfo\<lparr>info_page := 1, info_error := 1, info_count := 0\<rparr>,
        \<lparr>error_count = 1, requests = [AgeCheck, Search ''kw'' 1]\<rparr>)"
  unfolding lashinbang_get_item_def http_error_get_many
  by (simp add: l_pages_def lashinbang_to_table_def timeout_env_def http_error_env_def)

section \<open>Two runs of the auction site\<close>

lemma ex_affinity_values:
  "ex_affinity ''1000'' = SqlNum 1000" "ex_affinity ''5000'' = SqlNum 5000"
  "ex_affinity [] = SqlText []"
  by (simp_all add: ex_affinity_def)

lemma ex_y_page_get_item:
  "yahoo_get_item (ex_y_page_env f now) con nfo new_crawler [''kw'']
     = (Inr (), commit (con\<lparr>current := (current con)\<lparr>yahoo_temp :=
          map (y_stamp (info_time nfo))
            (y_insert_or_ignore ex_affinity (yahoo_temp (current con)) (ex_y_item ''1000'' f))\<rparr>\<rparr>),
        nfo\<lparr>info_page := 1, info_error := 0, info_count := 1\<rparr>,
        \<lparr>error_count = 0, requests = [Search ''kw'' 1]\<rparr>)"
  by (simp add: yahoo_get_item_def yahoo_get_one_def yahoo_to_table_def ex_y_page_env_def
        new_crawler_def)

section \<open>The claims\<close>

text \<open>
  Claim C1, as amended. In a run with a nonzero watermark and a nonzero error count, the
  sold list of \<open>LashinbangManager.compare\<close> is empty and the sold count is 0. The sold
  list of \<open>MercariManager.compare\<close> is not gated by the error count: its ids are exactly
  the ids staged as not on sale that are absent from the persistent table or persisted as
  on sale, and the sold count is the length of the list. \<open>YahooManager.compare\<close> returns
  no sold list and leaves the sold count as it was: the ids of its third list are exactly
  the ids in both tables whose staged bid count is greater than the persisted one, counted
  in \<open>bid\<close>.
\<close>

theorem sold_under_error:
  "info_last nfo \<noteq> 0 \<Longrightarrow> info_error nfo \<noteq> 0 \<Longrightarrow>
     (snd (snd (fst (lashinbang_compare d nfo))) = []
      \<and> info_sold (snd (lashinbang_compare d nfo)) = 0)
     \<and> set (map fst (snd (snd (fst (mercari_compare d nfo))))) =
         {i. \<exists>t \<in> set (mercari_temp d). m_item_id t = i \<and> m_onsale t = 0 \<and>
            (i \<notin> m_item_id ` set (mercari d)
             \<or> (\<exists>p \<in> set (mercari d). m_item_id p = i \<and> m_onsale p = 1))}
     \<and> info_sold (snd (mercari_compare d nfo))
         = int (length (snd (snd (fst (mercari_compare d nfo)))))
     \<and> set (map fst (snd (snd (fst (yahoo_compare d nfo))))) =
         {i. \<exists>t \<in> set (yahoo_temp d). \<exists>l \<in> set (yahoo d).
               y_item_id t = i \<and> y_item_id l = i \<and> y_bid_num l < y_bid_num t}
     \<and> info_bid (snd (yahoo_compare d nfo))
         = int (length (snd (snd (fst (yahoo_compare d nfo)))))
     \<and> info_sold (snd (yahoo_compare d nfo)) = info_sold nfo"
proof -
  assume l: "info_last nfo \<noteq> 0" and e: "info_error nfo \<noteq> 0"
  have a: "snd (snd (fst (lashinbang_compare d nfo))) = []
      \<and> info_sold (snd (lashinbang_compare d nfo)) = 0"
    using l e by (simp add: lashinbang_compare_def Let_def)
  have m: "set (map fst (snd (snd (fst (mercari_compare d nfo)))))
          = m_item_id ` set (mercari_sold d)"
    using l by (simp add: mercari_compare_sold fst_m_select)
  have mc: "info_sold (snd (mercari_compare d nfo))
         = int (length (snd (snd (fst (mercari_compare d nfo)))))"
    using l by (simp add: mercari_compare_def Let_def)
  have y: "set (map fst (snd (snd (fst (yahoo_compare d nfo))))) = fst ` set (yahoo_bid d)"
    using l by (simp add: yahoo_compare_third)
  have yc: "info_bid (snd (yahoo_compare d nfo))
         = int (length (snd (snd (fst (yahoo_compare d nfo)))))"
    using l by (simp add: yahoo_compare_third)
  show ?thesis
    unfolding m y mercari_sold_ids yahoo_bid_ids
    using a mc yc yahoo_compare_third(2) by simp
qed

theorem sold_under_error_witness:
  "info_last (ex_info 100 1) \<noteq> 0 \<and> info_error (ex_info 100 1) \<noteq> 0
   \<and> snd (snd (fst (lashinbang_compare
         (ex_db\<lparr>lashinbang := [ex_l_row 1 ''A'' 500 100, ex_l_row 2 ''B'' 700 100],
                 lashinbang_temp := [ex_l_row 1 ''A'' 500 200]\<rparr>) (ex_info 100 1)))) = []
   \<and> info_sold (snd (lashinbang_compare
         (ex_db\<lparr>lashinbang := [ex_l_row 1 ''A'' 500 100, ex_l_row 2 ''B'' 700 100],
                 lashinbang_temp := [ex_l_row 1 ''A'' 500 200]\<rparr>) (ex_info 100 1))) = 0"
proof -
  have h: "info_last (ex_info 100 1) \<noteq> 0" "info_error (ex_info 100 1) \<noteq> 0"
    by (simp_all add: ex_info_def)
  show ?thesis
    using h sold_under_error [OF h, THEN conjunct1,
        of "ex_db\<lparr>lashinbang := [ex_l_row 1 ''A'' 500 100, ex_l_row 2 ''B'' 700 100],
                 lashinbang_temp := [ex_l_row 1 ''A'' 500 200]\<rparr>"]
    by simp
qed

text \<open>
  Claim C1 as it was stated fails for the Mercari adapter: with one fetch error, a staged
  row that is no longer on sale and whose persistent row was on sale is reported as sold.
\<close>

theorem sold_under_error_counterexample:
  "info_last (ex_info 100 1) \<noteq> 0 \<and> info_error (ex_info 100 1) \<noteq> 0
   \<and> snd (snd (fst (mercari_compare
         (ex_db\<lparr>mercari := [ex_m_row ''m1'' ''x'' 500 1 100],
                 mercari_temp := [ex_m_row ''m1'' ''x'' 500 0 200]\<rparr>) (ex_info 100 1))))
       = [(''m1'', ''x'', ''u'', ''g'', 500)]
   \<and> info_sold (snd (mercari_compare
         (ex_db\<lparr>mercari := [ex_m_row ''m1'' ''x'' 500 1 100],
                 mercari_temp := [ex_m_row ''m1'' ''x'' 500 0 200]\<rparr>) (ex_info 100 1))) = 1"
  by (simp add: mercari_compare_def mercari_sold_def mercari_new_def mercari_discount_def
        m_select_def Let_def ex_defs)

text \<open>
  Claim C2, as amended. In a run with a nonzero watermark, the ids of the new list of
  \<open>LashinbangManager.compare\<close> are exactly the staged ids that are absent from the
  persistent table or persisted with an \<open>update_time\<close> older than the watermark. In
  \<open>YahooManager.compare\<close> the bound is the watermark minus 86400 seconds. In
  \<open>MercariManager.compare\<close> they are the ids staged as on sale that are absent from the
  persistent table or persisted as not on sale; the watermark is not used.
\<close>

theorem new_sets:
  assumes "info_last nfo \<noteq> 0"
  shows "set (map fst (fst (fst (lashinbang_compare d nfo)))) =
     {i. \<exists>t \<in> set (lashinbang_temp d). l_item_id t = i \<and>
        (i \<notin> l_item_id ` set (lashinbang d)
         \<or> (\<exists>p \<in> set (lashinbang d). l_item_id p = i
               \<and> sql_lt (l_update_time p) (info_last nfo)))}
   \<and> set (map fst (fst (fst (yahoo_compare d nfo)))) =
     {i. \<exists>t \<in> set (yahoo_temp d). y_item_id t = i \<and>
        (i \<notin> y_item_id ` set (yahoo d)
         \<or> (\<exists>p \<in> set (yahoo d). y_item_id p = i
               \<and> sql_lt (y_update_time p) (info_last nfo - 86400)))}
   \<and> set (map fst (fst (fst (mercari_compare d nfo)))) =
     {i. \<exists>t \<in> set (mercari_temp d). m_item_id t = i \<and> m_onsale t = 1 \<and>
        (i \<notin> m_item_id ` set (mercari d)
         \<or> (\<exists>p \<in> set (mercari d). m_item_id p = i \<and> m_onsale p = 0))}"
proof -
  have l: "set (map fst (fst (fst (lashinbang_compare d nfo))))
          = l_item_id ` set (lashinbang_new d (info_last nfo))"
    using assms by (simp add: lashinbang_compare_new fst_l_select)
  have y: "set (map fst (fst (fst (yahoo_compare d nfo))))
          = y_item_id ` set (yahoo_new d (info_last nfo - 86400))"
    using assms by (simp add: yahoo_compare_new fst_y_select)
  have m: "set (map fst (fst (fst (mercari_compare d nfo))))
          = m_item_id ` set (mercari_new d)"
    using assms by (simp add: mercari_compare_new fst_m_select)
  show ?thesis
    unfolding l y m lashinbang_new_ids yahoo_new_ids mercari_new_ids by simp
qed

theorem new_sets_witness:
  "info_last (ex_info 100 0) \<noteq> 0
   \<and> set (map fst (fst (fst (lashinbang_compare
        (ex_db\<lparr>lashinbang := [ex_l_row 1 ''A'' 500 50, ex_l_row 2 ''B'' 700 100],
                lashinbang_temp := [ex_l_row 1 ''A'' 500 200, ex_l_row 2 ''B'' 700 200,
                                    ex_l_row 3 ''C'' 900 200]\<rparr>) (ex_info 100 0)))))
      = {1, 3}"
proof -
  have h: "info_last (ex_info 100 0) \<noteq> 0" by (simp add: ex_info_def)
  have "set (map fst (fst (fst (lashinbang_compare
        (ex_db\<lparr>lashinbang := [ex_l_row 1 ''A'' 500 50, ex_l_row 2 ''B'' 700 100],
                lashinbang_temp := [ex_l_row 1 ''A'' 500 200, ex_l_row 2 ''B'' 700 200,
                                    ex_l_row 3 ''C'' 900 200]\<rparr>) (ex_info 100 0)))))
      = {i. \<exists>t \<in> set [ex_l_row 1 ''A'' 500 200, ex_l_row 2 ''B'' 700 200,
                                    ex_l_row 3 ''C'' 900 200]. l_item_id t = i \<and>
        (i \<notin> l_item_id ` set [ex_l_row 1 ''A'' 500 50, ex_l_row 2 ''B'' 700 100]
         \<or> (\<exists>p \<in> set [ex_l_row 1 ''A'' 500 50, ex_l_row 2 ''B'' 700 100]. l_item_id p = i
               \<and> sql_lt (l_update_time p) 100))}"
    using new_sets [OF h, of "ex_db\<lparr>lashinbang := [ex_l_row 1 ''A'' 500 50, ex_l_row 2 ''B'' 700 100],
                lashinbang_temp := [ex_l_row 1 ''A'' 500 200, ex_l_row 2 ''B'' 700 200,
                                    ex_l_row 3 ''C'' 900 200]\<rparr>"]
    by (simp add: ex_info_def)
  also have "\<dots> = {1, 3}"
    by (auto simp add: ex_l_row_def sql_lt_def)
  finally show ?thesis using h by simp
qed

text \<open>
  Claim C2 as it was stated fails for two adapters. Mercari: a staged id that the persistent
  table does not hold is not new when it is staged as not on sale. Yahoo: a persisted id
  whose \<open>update_time\<close> is older than the watermark, by less than a day, is not new.
\<close>

theorem new_sets_counterexample:
  "info_last (ex_info 100000 0) \<noteq> 0
   \<and> ''m2'' \<in> m_item_id ` set (mercari_temp (ex_db\<lparr>mercari_temp := [ex_m_row ''m2'' ''x'' 500 0 200000]\<rparr>))
   \<and> ''m2'' \<notin> m_item_id ` set (mercari (ex_db\<lparr>mercari_temp := [ex_m_row ''m2'' ''x'' 500 0 200000]\<rparr>))
   \<and> ''m2'' \<notin> set (map fst (fst (fst (mercari_compare
        (ex_db\<lparr>mercari_temp := [ex_m_row ''m2'' ''x'' 500 0 200000]\<rparr>) (ex_info 100000 0)))))
   \<and> ''y1'' \<in> y_item_id ` set (yahoo_temp
        (ex_db\<lparr>yahoo := [ex_y_row ''y1'' ''x'' 500 900 0 50000],
                yahoo_temp := [ex_y_row ''y1'' ''x'' 500 900 0 200000]\<rparr>))
   \<and> y_update_time (ex_y_row ''y1'' ''x'' 500 900 0 50000) = Some 50000
   \<and> (50000 :: real) < info_last (ex_info 100000 0)
   \<and> ''y1'' \<notin> set (map fst (fst (fst (yahoo_compare
        (ex_db\<lparr>yahoo := [ex_y_row ''y1'' ''x'' 500 900 0 50000],
                yahoo_temp := [ex_y_row ''y1'' ''x'' 500 900 0 200000]\<rparr>)
        (ex_info 100000 0)))))"
  by (simp add: mercari_compare_def mercari_new_def yahoo_compare_def yahoo_new_def
        m_select_def y_select_def sql_lt_def Let_def ex_defs)

text \<open>
  Claim C3 does not hold of the code. \<open>YahooManager.get_item\<close> binds the two prices as
  the attribute strings of the page; a string that is no numeric literal, such as the empty
  buy-now price of an auction without one, stays a text in the \<open>INTEGER\<close> column and is
  greater than every number in the order of SQLite. In the two runs below the bid price is
  \<open>1000\<close> both times and the buy-now price goes from empty to \<open>5000\<close>: no price dropped,
  and the second run lists the auction as discounted.
\<close>

theorem text_price_discount:
  "yahoo_main (ex_y_page_env [] 200) [''kw''] ex_yahoo_db True
     = (Inr (([(''y1'', ''x'', ''u'', ''g'', SqlNum 1000, SqlText [], 900, 0)], [], []), False),
        ex_yahoo_db_committed)
   \<and> fst (yahoo_main (ex_y_page_env ''5000'' 300) [''kw''] ex_yahoo_db_committed False)
     = Inr (([], [(''y1'', ''x'', ''u'', ''g'',
                   SqlNum 1000, SqlText [], SqlNum 1000, SqlNum 5000, 900, 0)], []), False)"
proof (intro conjI)
  have now: "y_now (ex_y_page_env f t) = t" for f t
    by (simp add: ex_y_page_env_def)
  show "yahoo_main (ex_y_page_env [] 200) [''kw''] ex_yahoo_db True
     = (Inr (([(''y1'', ''x'', ''u'', ''g'', SqlNum 1000, SqlText [], 900, 0)], [], []), False),
        ex_yahoo_db_committed)"
    unfolding yahoo_main_def yahoo_init_def
    by (simp add: ex_y_page_get_item now connect_def commit_def new_info_def
          get_update_time_def yahoo_compare_def yahoo_new_def yahoo_discount_def yahoo_bid_def
          y_select_def sql_lt_def update_yahoo_def yahoo_merge_def log_entry_def truthy_def
          y_insert_or_ignore_def y_stamp_def ex_y_item_def ex_affinity_values Let_def
          ex_yahoo_db_def ex_yahoo_db_committed_def ex_y_stored_def ex_db_def)
  show "fst (yahoo_main (ex_y_page_env ''5000'' 300) [''kw''] ex_yahoo_db_committed False)
     = Inr (([], [(''y1'', ''x'', ''u'', ''g'',
                   SqlNum 1000, SqlText [], SqlNum 1000, SqlNum 5000, 900, 0)], []), False)"
    unfolding yahoo_main_def yahoo_init_def
    by (simp add: ex_y_page_get_item now connect_def commit_def new_info_def
          get_update_time_def yahoo_compare_def yahoo_new_def yahoo_discount_def yahoo_bid_def
          y_select_def sql_lt_def truthy_def
          y_insert_or_ignore_def y_stamp_def ex_y_item_def ex_affinity_values Let_def
          ex_yahoo_db_committed_def ex_y_stored_def ex_db_def)
qed




text \<open>
  Claim C5. When the watermark is zero (\<open>info['last'] == 0.0\<close>), \<open>compare\<close> of every
  adapter returns three empty lists and sets the classification counts of the run metadata
  (\<open>new\<close>, \<open>discount\<close>, and \<open>sold\<close> or \<open>bid\<close>) to 0, whatever the staging and the
  persistent tables hold.
\<close>

theorem compare_first_run:
  "info_last nfo = 0 \<Longrightarrow>
     lashinbang_compare d nfo
       = (([], [], []), nfo\<lparr>info_new := 0, info_discount := 0, info_sold := 0\<rparr>)
   \<and> mercari_compare d nfo
       = (([], [], []), nfo\<lparr>info_new := 0, info_discount := 0, info_sold := 0\<rparr>)
   \<and> yahoo_compare d nfo
       = (([], [], []), nfo\<lparr>info_new := 0, info_discount := 0, info_bid := 0\<rparr>)"
  by (simp add: lashinbang_compare_def mercari_compare_def yahoo_compare_def)

theorem compare_first_run_witness:
  "info_last (ex_info 0 0) = 0
   \<and> lashinbang_compare (ex_db\<lparr>lashinbang_temp := [ex_l_row 1 ''x'' 500 200]\<rparr>) (ex_info 0 0)
       = (([], [], []), ex_info 0 0)
   \<and> mercari_compare (ex_db\<lparr>mercari_temp := [ex_m_row ''m1'' ''x'' 500 1 200]\<rparr>) (ex_info 0 0)
       = (([], [], []), ex_info 0 0)
   \<and> yahoo_compare (ex_db\<lparr>yahoo_temp := [ex_y_row ''y1'' ''x'' 500 900 0 200]\<rparr>) (ex_info 0 0)
       = (([], [], []), ex_info 0 0)"
proof -
  have h: "info_last (ex_info 0 0) = 0" by (simp add: ex_info_def)
  have e: "(ex_info 0 0)\<lparr>info_new := 0, info_discount := 0, info_sold := 0\<rparr> = ex_info 0 0"
          "(ex_info 0 0)\<lparr>info_new := 0, info_discount := 0, info_bid := 0\<rparr> = ex_info 0 0"
    by (simp_all add: ex_info_def)
  show ?thesis
    using h compare_first_run [OF h] by (simp add: e)
qed

text \<open>
  Claim C6 does not hold of the code: the \<open>except\<close> clause of every \<open>get_one\<close> names
  \<open>requests.HTTPError\<close> only, so a request that times out leaves the error counter as it
  was, where an HTTP error status increments it. In the Lashinbang run below the page that
  timed out is skipped without an error being counted, the run's error count is 0, and the
  item of the persistent table is reported as sold; the same run with an HTTP error status
  counts one error and reports nothing.
\<close>

theorem timeout_not_counted:
  "lashinbang_get_one (l_net timeout_env) new_crawler ''kw'' 1
     = (Inl Timeout, \<lparr>error_count = 0, requests = [Search ''kw'' 1]\<rparr>)
   \<and> lashinbang_get_one (l_net http_error_env) new_crawler ''kw'' 1
     = (Inl HTTPError, \<lparr>error_count = 1, requests = [Search ''kw'' 1]\<rparr>)
   \<and> yahoo_get_one (\<lambda>r. Raises Timeout) new_crawler ''kw''
     = (Inl Timeout, \<lparr>error_count = 0, requests = [Search ''kw'' 1]\<rparr>)
   \<and> mercari_get_one (\<lambda>r. Raises Timeout) new_crawler ''kw''
     = (Inl Timeout, \<lparr>error_count = 0, requests = [Search ''kw'' 0]\<rparr>)
   \<and> lashinbang_main timeout_env [''kw''] ex_sold_db False
     = (Inr (([], [], [(7, ''B'', ''u'', ''g'', 700)]), False), ex_sold_db)
   \<and> lashinbang_main http_error_env [''kw''] ex_sold_db False
     = (Inr (([], [], []), True), ex_sold_db)"
proof (intro conjI)
  show "lashinbang_get_one (l_net timeout_env) new_crawler ''kw'' 1
     = (Inl Timeout, \<lparr>error_count = 0, requests = [Search ''kw'' 1]\<rparr>)"
    by (simp add: lashinbang_get_one_def timeout_env_def new_crawler_def MAX_PAGE_LIMIT_def)
  show "lashinbang_get_one (l_net http_error_env) new_crawler ''kw'' 1
     = (Inl HTTPError, \<lparr>error_count = 1, requests = [Search ''kw'' 1]\<rparr>)"
    by (simp add: lashinbang_get_one_def timeout_env_def http_error_env_def new_crawler_def
          MAX_PAGE_LIMIT_def)
  show "yahoo_get_one (\<lambda>r. Raises Timeout) new_crawler ''kw''
     = (Inl Timeout, \<lparr>error_count = 0, requests = [Search ''kw'' 1]\<rparr>)"
    by (simp add: yahoo_get_one_def new_crawler_def)
  show "mercari_get_one (\<lambda>r. Raises Timeout) new_crawler ''kw''
     = (Inl Timeout, \<lparr>error_count = 0, requests = [Search ''kw'' 0]\<rparr>)"
    by (simp add: mercari_get_one_def new_crawler_def)
  have db: "ex_sold_db\<lparr>lashinbang_temp := []\<rparr> = ex_sold_db"
    by (simp add: ex_sold_db_def ex_db_def)
  have now: "l_now timeout_env = 200" "l_now http_error_env = 200"
    by (simp_all add: timeout_env_def http_error_env_def)
  show "lashinbang_main timeout_env [''kw''] ex_sold_db False
     = (Inr (([], [], [(7, ''B'', ''u'', ''g'', 700)]), False), ex_sold_db)"
    unfolding lashinbang_main_def lashinbang_init_def db
    by (simp add: timeout_get_item now connect_def commit_def new_info_def get_update_time_def truthy_def lashinbang_compare_def
          lashinbang_new_def lashinbang_discount_def lashinbang_sold_def l_select_def
          sql_ge_def Let_def ex_sold_db_def ex_db_def ex_l_row_def)
  show "lashinbang_main http_error_env [''kw''] ex_sold_db False
     = (Inr (([], [], []), True), ex_sold_db)"
    unfolding lashinbang_main_def lashinbang_init_def db
    by (simp add: http_error_get_item now connect_def commit_def new_info_def get_update_time_def truthy_def lashinbang_compare_def
          lashinbang_new_def lashinbang_discount_def lashinbang_sold_def l_select_def
          sql_ge_def Let_def ex_sold_db_def ex_db_def ex_l_row_def)
qed

text \<open>
  Claim C7. In \<open>YahooManager.compare\<close>, in a run with a nonzero watermark, a staged id that
  the persistent table does not hold is in the new list, and a staged id that the persistent
  table holds (in its one row of that id) is in the new list exactly when the
  \<open>update_time\<close> of that row is older than the watermark minus 86400 seconds.
\<close>

theorem yahoo_reappear_window:
  assumes "info_last nfo \<noteq> 0" and "t \<in> set (yahoo_temp d)"
  shows "(y_item_id t \<notin> y_item_id ` set (yahoo d)
            \<longrightarrow> y_item_id t \<in> set (map fst (fst (fst (yahoo_compare d nfo)))))
       \<and> (\<forall>p \<in> set (yahoo d).
             distinct (map y_item_id (yahoo d)) \<longrightarrow> y_item_id p = y_item_id t \<longrightarrow>
               (y_item_id t \<in> set (map fst (fst (fst (yahoo_compare d nfo))))
                  \<longleftrightarrow> sql_lt (y_update_time p) (info_last nfo - 86400)))"
proof -
  have ids: "set (map fst (fst (fst (yahoo_compare d nfo))))
          = y_item_id ` set (yahoo_new d (info_last nfo - 86400))"
    using assms(1) by (simp add: yahoo_compare_new fst_y_select)
  have absent: "y_item_id t \<in> y_item_id ` set (yahoo_new d (info_last nfo - 86400))"
    if "y_item_id t \<notin> y_item_id ` set (yahoo d)"
    using that assms(2) unfolding yahoo_new_ids by blast
  have present: "y_item_id t \<in> y_item_id ` set (yahoo_new d (info_last nfo - 86400))
                   \<longleftrightarrow> sql_lt (y_update_time p) (info_last nfo - 86400)"
    if p: "p \<in> set (yahoo d)" and dist: "distinct (map y_item_id (yahoo d))"
      and same: "y_item_id p = y_item_id t" for p
  proof
    have inp: "y_item_id t \<in> y_item_id ` set (yahoo d)"
      using p same by (metis imageI)
    assume "y_item_id t \<in> y_item_id ` set (yahoo_new d (info_last nfo - 86400))"
    then obtain q where q: "q \<in> set (yahoo d)" "y_item_id q = y_item_id t"
        "sql_lt (y_update_time q) (info_last nfo - 86400)"
      unfolding yahoo_new_ids using inp by blast
    have "q = p" using distinct_same_id [OF dist q(1) p] q(2) same by simp
    then show "sql_lt (y_update_time p) (info_last nfo - 86400)" using q(3) by simp
  next
    assume "sql_lt (y_update_time p) (info_last nfo - 86400)"
    then show "y_item_id t \<in> y_item_id ` set (yahoo_new d (info_last nfo - 86400))"
      unfolding yahoo_new_ids using p same assms(2) by blast
  qed
  show ?thesis unfolding ids using absent present by blast
qed

theorem yahoo_reappear_window_witness:
  "info_last (ex_info 100000 0) \<noteq> 0
   \<and> ex_y_row ''y1'' ''x'' 500 900 0 200000 \<in> set (yahoo_temp
        (ex_db\<lparr>yahoo := [ex_y_row ''y1'' ''x'' 500 900 0 50000, ex_y_row ''y2'' ''x'' 5 9 0 10000],
                yahoo_temp := [ex_y_row ''y1'' ''x'' 500 900 0 200000]\<rparr>))
   \<and> ex_y_row ''y1'' ''x'' 500 900 0 50000 \<in> set (yahoo
        (ex_db\<lparr>yahoo := [ex_y_row ''y1'' ''x'' 500 900 0 50000, ex_y_row ''y2'' ''x'' 5 9 0 10000],
                yahoo_temp := [ex_y_row ''y1'' ''x'' 500 900 0 200000]\<rparr>))
   \<and> distinct (map y_item_id (yahoo
        (ex_db\<lparr>yahoo := [ex_y_row ''y1'' ''x'' 500 900 0 50000, ex_y_row ''y2'' ''x'' 5 9 0 10000],
                yahoo_temp := [ex_y_row ''y1'' ''x'' 500 900 0 200000]\<rparr>)))
   \<and> y_item_id (ex_y_row ''y1'' ''x'' 500 900 0 50000)
        = y_item_id (ex_y_row ''y1'' ''x'' 500 900 0 200000)
   \<and> \<not> sql_lt (y_update_time (ex_y_row ''y1'' ''x'' 500 900 0 50000))
          (info_last (ex_info 100000 0) - 86400)
   \<and> ''y1'' \<notin> set (map fst (fst (fst (yahoo_compare
        (ex_db\<lparr>yahoo := [ex_y_row ''y1'' ''x'' 500 900 0 50000, ex_y_row ''y2'' ''x'' 5 9 0 10000],
                yahoo_temp := [ex_y_row ''y1'' ''x'' 500 900 0 200000]\<rparr>)
        (ex_info 100000 0)))))"
proof -
  let ?d = "ex_db\<lparr>yahoo := [ex_y_row ''y1'' ''x'' 500 900 0 50000, ex_y_row ''y2'' ''x'' 5 9 0 10000],
                yahoo_temp := [ex_y_row ''y1'' ''x'' 500 900 0 200000]\<rparr>"
  have h1: "info_last (ex_info 100000 0) \<noteq> 0" by (simp add: ex_info_def)
  have h2: "ex_y_row ''y1'' ''x'' 500 900 0 200000 \<in> set (yahoo_temp ?d)" by simp
  have h3: "ex_y_row ''y1'' ''x'' 500 900 0 50000 \<in> set (yahoo ?d)" by simp
  have h4: "distinct (map y_item_id (yahoo ?d))" by (simp add: ex_y_row_def)
  have h5: "y_item_id (ex_y_row ''y1'' ''x'' 500 900 0 50000)
        = y_item_id (ex_y_row ''y1'' ''x'' 500 900 0 200000)" by (simp add: ex_y_row_def)
  have h6: "\<not> sql_lt (y_update_time (ex_y_row ''y1'' ''x'' 500 900 0 50000))
          (info_last (ex_info 100000 0) - 86400)"
    by (simp add: ex_y_row_def ex_info_def sql_lt_def)
  have id: "y_item_id (ex_y_row ''y1'' ''x'' 500 900 0 200000) = ''y1''"
    by (simp add: ex_y_row_def)
  from yahoo_reappear_window [OF h1 h2] h3 h4 h5 h6
  have "y_item_id (ex_y_row ''y1'' ''x'' 500 900 0 200000)
          \<notin> set (map fst (fst (fst (yahoo_compare ?d (ex_info 100000 0)))))"
    by blast
  then show ?thesis using h1 h2 h3 h4 h5 h6 unfolding id by blast
qed

text \<open>
  Claim C8. For every keyword and every page number greater than \<open>MAX_PAGE_LIMIT = 12\<close>,
  \<open>LashinbangCrawler.get_one\<close> raises \<open>ValueError\<close> (after counting an error) and sends
  no request: the list of requests is as it was before the call, whatever the network
  would have answered.
\<close>

theorem get_one_page_limit:
  "page > 12 \<Longrightarrow>
     MAX_PAGE_LIMIT = 12
     \<and> lashinbang_get_one net c keyword page
         = (Inl ValueError, c\<lparr>error_count := error_count c + 1\<rparr>)
     \<and> requests (snd (lashinbang_get_one net c keyword page)) = requests c"
  by (simp add: lashinbang_get_one_def MAX_PAGE_LIMIT_def)

theorem get_one_page_limit_witness:
  "(13 :: int) > 12
   \<and> lashinbang_get_one (\<lambda>r. Response ''callback({})'') new_crawler ''kw'' 13
       = (Inl ValueError, \<lparr>error_count = 1, requests = []\<rparr>)"
proof -
  have h: "(13 :: int) > 12" by simp
  show ?thesis
    using h get_one_page_limit [OF h, of "\<lambda>r. Response ''callback({})''" new_crawler "''kw''"]
    by (simp add: new_crawler_def)
qed

text \<open>
  Claim C9. When the bulk insert into the staging table fails (some item of the batch
  cannot be bound), \<open>_to_table\<close> rolls back: the connection shows the last committed
  state again, with none of the rows of the batch, nothing is committed, and the error is
  raised; when every item can be inserted, the staged rows are stamped with the run's time
  and committed. In a run whose parsed items make the insert fail, \<open>main\<close> ends with that
  error, with or without \<open>update\<close>: \<open>compare\<close> and \<open>update\<close> are not reached, the staging
  table is empty and every other table is as before the run.
\<close>

theorem to_table_failure:
  "(\<not> list_all okl datal \<longrightarrow>
      lashinbang_to_table okl con nfo datal
        = (Inl DatabaseError, con\<lparr>current := committed con\<rparr>))
   \<and> (list_all okl datal \<longrightarrow>
      lashinbang_to_table okl con nfo datal
        = (Inr (), commit (con\<lparr>current := (current con)\<lparr>lashinbang_temp :=
              map (l_stamp (info_time nfo))
                (foldl l_insert_or_ignore (lashinbang_temp (current con)) datal)\<rparr>\<rparr>)))
   \<and> (\<not> list_all okm datam \<longrightarrow>
      mercari_to_table okm con nfo datam
        = (Inl DatabaseError, con\<lparr>current := committed con\<rparr>))
   \<and> (list_all okm datam \<longrightarrow>
      mercari_to_table okm con nfo datam
        = (Inr (), commit (con\<lparr>current := (current con)\<lparr>mercari_temp :=
              map (m_stamp (info_time nfo))
                (foldl m_insert_or_ignore (mercari_temp (current con)) datam)\<rparr>\<rparr>)))
   \<and> (\<not> list_all oky datay \<longrightarrow>
      yahoo_to_table oky aff con nfo datay
        = (Inl DatabaseError, con\<lparr>current := committed con\<rparr>))
   \<and> (list_all oky datay \<longrightarrow>
      yahoo_to_table oky aff con nfo datay
        = (Inr (), commit (con\<lparr>current := (current con)\<lparr>yahoo_temp :=
              map (y_stamp (info_time nfo))
                (foldl (y_insert_or_ignore aff) (yahoo_temp (current con)) datay)\<rparr>\<rparr>)))
   \<and> (\<forall>raw c1 err items.
        lashinbang_get_many (l_net le) (l_page_count le) new_crawler kws = (Inr raw, c1) \<longrightarrow>
        l_parse (l_loads le) (l_items le) (l_pages raw) (error_count c1) [] = Inr (err, items)
          \<longrightarrow>
        \<not> list_all (l_bindable le) items \<longrightarrow>
        lashinbang_main le kws d upd = (Inl DatabaseError, d\<lparr>lashinbang_temp := []\<rparr>))
   \<and> (\<forall>raw c1 err items.
        mercari_get_many (m_net me) new_crawler [] kws = (raw, c1) \<longrightarrow>
        m_parse (map snd raw) (error_count c1) [] = Inr (err, items) \<longrightarrow>
        \<not> list_all (m_bindable me) items \<longrightarrow>
        mercari_main me kws d upd = (Inl DatabaseError, d\<lparr>mercari_temp := []\<rparr>))
   \<and> (\<forall>raw c1 err items.
        yahoo_get_many (y_net ye) new_crawler [] kws = (raw, c1) \<longrightarrow>
        y_parse (y_soup ye) (y_check_empty ye) (y_items ye) (map snd raw) (error_count c1) []
          = Inr (err, items) \<longrightarrow>
        \<not> list_all (y_bindable ye) items \<longrightarrow>
        yahoo_main ye kws d upd = (Inl DatabaseError, d\<lparr>yahoo_temp := []\<rparr>))"
proof (intro conjI allI impI)
  fix raw c1 err items
  assume "lashinbang_get_many (l_net le) (l_page_count le) new_crawler kws = (Inr raw, c1)"
    and "l_parse (l_loads le) (l_items le) (l_pages raw) (error_count c1) [] = Inr (err, items)"
    and "\<not> list_all (l_bindable le) items"
  then show "lashinbang_main le kws d upd = (Inl DatabaseError, d\<lparr>lashinbang_temp := []\<rparr>)"
    by (rule lashinbang_main_insert_fails)
next
  fix raw c1 err items
  assume "mercari_get_many (m_net me) new_crawler [] kws = (raw, c1)"
    and "m_parse (map snd raw) (error_count c1) [] = Inr (err, items)"
    and "\<not> list_all (m_bindable me) items"
  then show "mercari_main me kws d upd = (Inl DatabaseError, d\<lparr>mercari_temp := []\<rparr>)"
    by (rule mercari_main_insert_fails)
next
  fix raw c1 err items
  assume "yahoo_get_many (y_net ye) new_crawler [] kws = (raw, c1)"
    and "y_parse (y_soup ye) (y_check_empty ye) (y_items ye) (map snd raw) (error_count c1) []
          = Inr (err, items)"
    and "\<not> list_all (y_bindable ye) items"
  then show "yahoo_main ye kws d upd = (Inl DatabaseError, d\<lparr>yahoo_temp := []\<rparr>)"
    by (rule yahoo_main_insert_fails)
qed (erule lashinbang_to_table_fail lashinbang_to_table_ok mercari_to_table_fail
       mercari_to_table_ok yahoo_to_table_fail yahoo_to_table_ok)+

theorem to_table_failure_witness:
  "\<not> list_all (l_bindable ex_unbindable_env) [ex_l_item 1 500, ex_l_item 2 600]
   \<and> lashinbang_to_table (l_bindable ex_unbindable_env) (connect ex_sold_db) (ex_info 100 0)
         [ex_l_item 1 500, ex_l_item 2 600]
       = (Inl DatabaseError, connect ex_sold_db)
   \<and> list_all (l_bindable ex_unbindable_env) [ex_l_item 1 500]
   \<and> lashinbang_temp (current (snd (lashinbang_to_table (l_bindable ex_unbindable_env)
         (connect ex_sold_db) (ex_info 100 0) [ex_l_item 1 500])))
       = [\<lparr>l_item_id = 1, l_title = ''t'', l_item_url = ''u'', l_image_url = ''g'',
           l_price = 500, l_record_time = Some 200, l_update_time = Some 200\<rparr>]
   \<and> lashinbang_main ex_unbindable_env [''kw''] ex_sold_db True
       = (Inl DatabaseError, ex_sold_db)"
proof -
  note fails = to_table_failure [THEN conjunct1, rule_format]
  note succeeds = to_table_failure [THEN conjunct2, THEN conjunct1, rule_format]
  note aborts = to_table_failure [THEN conjunct2, THEN conjunct2, THEN conjunct2,
      THEN conjunct2, THEN conjunct2, THEN conjunct2, THEN conjunct1, rule_format]
  have bad: "\<not> list_all (l_bindable ex_unbindable_env) [ex_l_item 1 500, ex_l_item 2 600]"
    by (simp add: ex_unbindable_env_def ex_l_item_def)
  have good: "list_all (l_bindable ex_unbindable_env) [ex_l_item 1 500]"
    by (simp add: ex_unbindable_env_def ex_l_item_def)
  have gm: "lashinbang_get_many (l_net ex_unbindable_env) (l_page_count ex_unbindable_env)
              new_crawler [''kw'']
            = (Inr [(''kw'', 1, [(1, Some ''{'')])],
               \<lparr>error_count = 0, requests = [AgeCheck, Search ''kw'' 1]\<rparr>)"
    by (simp add: lashinbang_get_many_def pass_age_check_def lashinbang_get_one_def
          ex_unbindable_env_def new_crawler_def MAX_PAGE_LIMIT_def l_pages_of_def Let_def)
  have ps: "l_parse (l_loads ex_unbindable_env) (l_items ex_unbindable_env)
              (l_pages [(''kw'', 1, [(1, Some ''{'')])])
              (error_count \<lparr>error_count = 0, requests = [AgeCheck, Search ''kw'' 1]\<rparr>) []
            = Inr (0, [ex_l_item 1 500, ex_l_item 2 600])"
    by (simp add: l_pages_def ex_unbindable_env_def)
  have a: "lashinbang_to_table (l_bindable ex_unbindable_env) (connect ex_sold_db) (ex_info 100 0)
         [ex_l_item 1 500, ex_l_item 2 600]
       = (Inl DatabaseError, connect ex_sold_db)"
    using fails [OF bad, of "connect ex_sold_db" "ex_info 100 0"] by (simp add: connect_def)
  have b: "lashinbang_temp (current (snd (lashinbang_to_table (l_bindable ex_unbindable_env)
         (connect ex_sold_db) (ex_info 100 0) [ex_l_item 1 500])))
       = [\<lparr>l_item_id = 1, l_title = ''t'', l_item_url = ''u'', l_image_url = ''g'',
           l_price = 500, l_record_time = Some 200, l_update_time = Some 200\<rparr>]"
    using succeeds [OF good, of "connect ex_sold_db" "ex_info 100 0"]
    by (simp add: connect_def commit_def l_insert_or_ignore_def l_stamp_def ex_sold_db_def
          ex_db_def ex_l_item_def ex_info_def)
  have db: "ex_sold_db\<lparr>lashinbang_temp := []\<rparr> = ex_sold_db"
    by (simp add: ex_sold_db_def ex_db_def)
  have c: "lashinbang_main ex_unbindable_env [''kw''] ex_sold_db True
       = (Inl DatabaseError, ex_sold_db)"
    using aborts [OF gm ps bad, of ex_sold_db True] unfolding db .
  show ?thesis using bad a good b c by blast
qed

text \<open>
  Claim C10. \<open>bot_autorun.main\<close> calls the \<open>main\<close> of every site without the argument
  \<open>update\<close>, that is with its default \<open>False\<close>, so \<open>update\<close> is never called: whatever
  the configuration, the network and the parsers do, and whether the run ends normally or
  with an exception, the tables \<open>lashinbang\<close>, \<open>mercari\<close>, \<open>yahoo\<close> and \<open>log\<close> of the
  database file are the same after the run as before it; only staging tables are rewritten.
  The watermark that the next run reads from the log is therefore the same as well.
\<close>

theorem autorun_leaves_persistent:
  "lashinbang (snd (autorun_main le me ye cfg d)) = lashinbang d
   \<and> mercari (snd (autorun_main le me ye cfg d)) = mercari d
   \<and> yahoo (snd (autorun_main le me ye cfg d)) = yahoo d
   \<and> log (snd (autorun_main le me ye cfg d)) = log d
   \<and> (\<forall>site. get_update_time (log (snd (autorun_main le me ye cfg d))) site
                = get_update_time (log d) site)"
proof -
  obtain L M Y where "snd (autorun_main le me ye cfg d) = d\<lparr>lashinbang_temp := L\<rparr>
     \<or> snd (autorun_main le me ye cfg d) = d\<lparr>lashinbang_temp := L, mercari_temp := M\<rparr>
     \<or> snd (autorun_main le me ye cfg d)
          = d\<lparr>lashinbang_temp := L, mercari_temp := M, yahoo_temp := Y\<rparr>"
    using autorun_main_db by blast
  then show ?thesis by (elim disjE) simp_all
qed

theorem autorun_leaves_persistent_witness:
  "lashinbang (snd (autorun_main timeout_env ex_m_env ex_y_env ex_config ex_sold_db))
     = [ex_l_row 7 ''B'' 700 100]
   \<and> log (snd (autorun_main timeout_env ex_m_env ex_y_env ex_config ex_sold_db))
     = log ex_sold_db
   \<and> get_update_time
        (log (snd (autorun_main timeout_env ex_m_env ex_y_env ex_config ex_sold_db)))
        ''lashinbang'' = 100"
  using autorun_leaves_persistent [of timeout_env ex_m_env ex_y_env ex_config ex_sold_db]
  by (simp add: ex_sold_db_def ex_db_def get_update_time_def)

end
